theory Spec2Isabelle
  imports Complex_Main "HOL-Library.Word"
begin

section \<open>Values, errors and the platform\<close>

text \<open>
  The Pendo server provider is TypeScript running on Node.js. Its collaborators
  (\<^verbatim>\<open>JSON\<close>, \<^verbatim>\<open>pako\<close>, \<^verbatim>\<open>fetch\<close>, \<^verbatim>\<open>Date.now\<close>, \<^verbatim>\<open>console\<close>) are not part of the
  repository. They enter the model as the fields of a \<open>platform\<close> record and as an
  explicit \<open>world\<close> that is threaded through every operation.
\<close>

type_synonym byte = "8 word"

text \<open>A JavaScript value as far as the provider handles one (\<^verbatim>\<open>JsonValue\<close> plus \<^verbatim>\<open>undefined\<close>).\<close>

datatype js_value =
    JUndefined
  | JNull
  | JBool bool
  | JNum real
  | JStr string
  | JArr "js_value list"
  | JObj "(string \<times> js_value) list"

text \<open>
  What a \<^verbatim>\<open>throw\<close> or a rejected promise carries: an instance of \<^verbatim>\<open>Error\<close> with its
  message, or any other value (the \<^verbatim>\<open>instanceof Error\<close> test of the provider tells them apart).
\<close>

datatype thrown = Error (message: string) | NonError

datatype reason = TARGETING_MATCH | DEFAULT | ERROR

text \<open>\<^verbatim>\<open>ErrorCode\<close> of the OpenFeature SDK.\<close>

datatype error_code =
    PROVIDER_NOT_READY | PROVIDER_FATAL | FLAG_NOT_FOUND | PARSE_ERROR
  | TYPE_MISMATCH | TARGETING_KEY_MISSING | INVALID_CONTEXT | GENERAL

text \<open>\<^verbatim>\<open>ServerProviderStatus\<close> of the OpenFeature SDK.\<close>

datatype provider_status = NOT_READY | READY | STATUS_ERROR | STALE | FATAL

text \<open>\<^verbatim>\<open>ResolutionDetails<T>\<close>; a field that the code leaves out is \<open>None\<close>.\<close>

record 'a resolution_details =
  val :: 'a
  reason :: reason
  variant :: "string option"
  errorCode :: "error_code option"
  errorMessage :: "string option"

text \<open>
  \<^verbatim>\<open>EvaluationContext\<close>: the provider reads \<^verbatim>\<open>targetingKey\<close> and \<^verbatim>\<open>accountId\<close> only
  (the latter through the cast \<^verbatim>\<open>as string | undefined\<close>).
\<close>

record evaluation_context =
  targetingKey :: "string option"
  accountId :: "string option"

record request =
  url :: string
  httpMethod :: string
  headers :: "(string \<times> string) list"
  body :: "string option"

text \<open>
  The part of a \<^verbatim>\<open>Response\<close> that \<^verbatim>\<open>fetchSegmentFlags\<close> reads. \<open>json\<close> is the outcome of
  \<^verbatim>\<open>await response.json()\<close> followed by the read of \<^verbatim>\<open>data.segmentFlags\<close>:
  \<open>Inl\<close> when that throws, \<open>Inr None\<close> when the property is missing,
  \<open>Inr (Some fs)\<close> when it holds the array \<open>fs\<close>.
\<close>

record response =
  status :: nat
  ok :: bool
  statusText :: string
  json :: "thrown + string list option"

datatype console_entry = Warn string | ErrorLog string thrown

text \<open>
  The world outside the provider: the clock read by \<^verbatim>\<open>Date.now()\<close> (milliseconds),
  the requests handed to \<^verbatim>\<open>fetch\<close> so far, and what was written to the console.
\<close>

record world =
  now :: int
  calls :: "request list"
  console :: "console_entry list"

text \<open>
  The network answers a request with a rejection or a response, after some
  milliseconds. The answer may depend on the requests made before and on the time.
\<close>

type_synonym network = "request list \<Rightarrow> int \<Rightarrow> request \<Rightarrow> (thrown + response) \<times> nat"

record platform =
  JSON_stringify :: "js_value \<Rightarrow> string"
  JSON_parse :: "string \<Rightarrow> thrown + js_value"
  pako_deflate :: "string \<Rightarrow> byte list"
  pako_inflate :: "byte list \<Rightarrow> thrown + string"
  fetch :: network

definition console_warn :: "string \<Rightarrow> world \<Rightarrow> world" where
  "console_warn msg w = w\<lparr>console := console w @ [Warn msg]\<rparr>"

definition console_error :: "string \<Rightarrow> thrown \<Rightarrow> world \<Rightarrow> world" where
  "console_error msg e w = w\<lparr>console := console w @ [ErrorLog msg e]\<rparr>"

text \<open>\<^verbatim>\<open>await fetch(...)\<close>: the request is recorded and the clock moves on while the caller waits.\<close>

definition await_fetch :: "platform \<Rightarrow> request \<Rightarrow> world \<Rightarrow> (thrown + response) \<times> world" where
  "await_fetch env rq w =
     (case fetch env (calls w) (now w) rq of
        (outcome, elapsed) \<Rightarrow>
          (outcome, w\<lparr>now := now w + int elapsed, calls := calls w @ [rq]\<rparr>))"

text \<open>
  \<^verbatim>\<open>fetch(...).catch(handler)\<close> without \<^verbatim>\<open>await\<close>: the request is recorded, the caller
  does not wait, and a rejection reaches the handler only.
\<close>

definition fire_fetch :: "platform \<Rightarrow> request \<Rightarrow> world \<Rightarrow> (thrown + response) \<times> world" where
  "fire_fetch env rq w =
     (case fetch env (calls w) (now w) rq of
        (outcome, elapsed) \<Rightarrow> (outcome, w\<lparr>calls := calls w @ [rq]\<rparr>))"

text \<open>JavaScript truthiness of a \<^verbatim>\<open>string | undefined\<close>: false for \<^verbatim>\<open>undefined\<close> and for \<^verbatim>\<open>""\<close>.\<close>

definition truthy :: "string option \<Rightarrow> bool" where
  "truthy s = (case s of None \<Rightarrow> False | Some t \<Rightarrow> t \<noteq> [])"

text \<open>\<^verbatim>\<open>s || ""\<close> for a \<^verbatim>\<open>string | undefined\<close>.\<close>

definition or_empty :: "string option \<Rightarrow> string" where
  "or_empty s = (case s of None \<Rightarrow> [] | Some t \<Rightarrow> t)"

text \<open>A non-negative integer inside a template literal: its decimal digits.\<close>

definition digit_char :: "nat \<Rightarrow> char" where
  "digit_char d = ''0123456789'' ! d"

fun string_of_nat :: "nat \<Rightarrow> string" where
  "string_of_nat n =
     (if n < 10 then [digit_char n]
      else string_of_nat (n div 10) @ [digit_char (n mod 10)])"

declare string_of_nat.simps [simp del]


section \<open>JZB: JSON, zlib, URL-safe Base64 (\<^verbatim>\<open>jzb.ts\<close>)\<close>

text \<open>
  \<^verbatim>\<open>Buffer.from(bytes).toString("base64")\<close> and \<^verbatim>\<open>Buffer.from(text, "base64")\<close> are
  Node.js built-ins; they are written out here as the Base64 of RFC 4648: three bytes
  become four characters of the alphabet, a last group of one or two bytes is padded
  with \<^verbatim>\<open>=\<close>. The decoder stops at the first character outside the alphabet.
\<close>

definition b64_alphabet :: string where
  "b64_alphabet = ''ABCDEFGHIJKLMNOPQRSTUVWXYZabcdefghijklmnopqrstuvwxyz0123456789+/''"

definition b64_char :: "nat \<Rightarrow> char" where
  "b64_char i = b64_alphabet ! i"

fun index_of :: "'a list \<Rightarrow> 'a \<Rightarrow> nat option" where
  "index_of [] c = None"
| "index_of (x # xs) c = (if x = c then Some 0 else map_option Suc (index_of xs c))"

definition b64_index :: "char \<Rightarrow> nat option" where
  "b64_index c = index_of b64_alphabet c"

fun b64enc :: "byte list \<Rightarrow> string" where
  "b64enc [] = []"
| "b64enc [a] =
     [b64_char (unat a div 4), b64_char (unat a mod 4 * 16), CHR ''='', CHR ''='']"
| "b64enc [a, b] =
     [b64_char (unat a div 4), b64_char (unat a mod 4 * 16 + unat b div 16),
      b64_char (unat b mod 16 * 4), CHR ''='']"
| "b64enc (a # b # c # rest) =
     [b64_char (unat a div 4), b64_char (unat a mod 4 * 16 + unat b div 16),
      b64_char (unat b mod 16 * 4 + unat c div 64), b64_char (unat c mod 64)]
     @ b64enc rest"

fun b64dec :: "string \<Rightarrow> byte list" where
  "b64dec (c0 # c1 # c2 # c3 # rest) =
     (case b64_index c0 of
        None \<Rightarrow> []
      | Some i0 \<Rightarrow>
          (case b64_index c1 of
             None \<Rightarrow> []
           | Some i1 \<Rightarrow>
               (case b64_index c2 of
                  None \<Rightarrow> [of_nat (i0 * 4 + i1 div 16)]
                | Some i2 \<Rightarrow>
                    (case b64_index c3 of
                       None \<Rightarrow>
                         [of_nat (i0 * 4 + i1 div 16), of_nat (i1 mod 16 * 16 + i2 div 4)]
                     | Some i3 \<Rightarrow>
                         [of_nat (i0 * 4 + i1 div 16), of_nat (i1 mod 16 * 16 + i2 div 4),
                          of_nat (i2 mod 4 * 64 + i3)] @ b64dec rest))))"
| "b64dec cs = []"

text \<open>\<^verbatim>\<open>s.replace(/a/g, "b")\<close> for single characters \<open>a\<close> and \<open>b\<close>.\<close>

definition replace_char :: "char \<Rightarrow> char \<Rightarrow> string \<Rightarrow> string" where
  "replace_char a b s = map (\<lambda>c. if c = a then b else c) s"

text \<open>\<^verbatim>\<open>s.replace(/=+$/, "")\<close>: the run of \<^verbatim>\<open>=\<close> at the end of the string is removed.\<close>

definition strip_padding :: "string \<Rightarrow> string" where
  "strip_padding s = rev (dropWhile (\<lambda>c. c = CHR ''='') (rev s))"

definition encodeJzb :: "platform \<Rightarrow> js_value \<Rightarrow> string" where
  "encodeJzb env payload =
     (let jsonString = JSON_stringify env payload;
          compressed = pako_deflate env jsonString;
          base64 = b64enc compressed;
          urlSafe = strip_padding
                      (replace_char (CHR ''/'') (CHR ''_'')
                        (replace_char (CHR ''+'') (CHR ''-'') base64))
      in urlSafe)"

text \<open>The helper \<^verbatim>\<open>decodeJzb\<close> of \<^verbatim>\<open>jzb.spec.ts\<close>.\<close>

definition decodeJzb :: "platform \<Rightarrow> string \<Rightarrow> thrown + js_value" where
  "decodeJzb env encoded =
     (let base64 = replace_char (CHR ''_'') (CHR ''/'')
                     (replace_char (CHR ''-'') (CHR ''+'') encoded);
          padding = length base64 mod 4;
          padded = (if padding > 0 then base64 @ replicate (4 - padding) (CHR ''='')
                    else base64);
          compressed = b64dec padded
      in case pako_inflate env compressed of
           Inl e \<Rightarrow> Inl e
         | Inr jsonString \<Rightarrow> JSON_parse env jsonString)"

text \<open>The regular expression \<^verbatim>\<open>^[A-Za-z0-9_-]+$\<close>.\<close>

definition url_safe_char :: "char \<Rightarrow> bool" where
  "url_safe_char c =
     (let n = (of_char c :: nat)
      in (65 \<le> n \<and> n \<le> 90) \<or> (97 \<le> n \<and> n \<le> 122) \<or> (48 \<le> n \<and> n \<le> 57)
         \<or> c = CHR ''_'' \<or> c = CHR ''-'')"

definition matches_url_safe :: "string \<Rightarrow> bool" where
  "matches_url_safe s = (s \<noteq> [] \<and> list_all url_safe_char s)"


section \<open>The provider (\<^verbatim>\<open>PendoProvider.ts\<close>)\<close>

text \<open>
  \<^verbatim>\<open>this.options\<close> after the constructor has filled in the defaults. \<^verbatim>\<open>cacheTtl\<close> is a
  number of milliseconds.
\<close>

record provider_options =
  apiKey :: string
  defaultUrl :: string
  baseUrl :: string
  cacheTtl :: int
  trackEventSecret :: "string option"

record cache_entry =
  flags :: "string list"
  expiresAt :: int

text \<open>
  The mutable fields of a \<^verbatim>\<open>PendoProvider\<close>. The field \<^verbatim>\<open>status\<close> of the class is
  \<open>providerStatus\<close> here, since \<open>status\<close> is the HTTP status of a response.
\<close>

record provider =
  options :: provider_options
  providerStatus :: provider_status
  cache :: "string \<rightharpoonup> cache_entry"

definition new_PendoProvider ::
  "string \<Rightarrow> string \<Rightarrow> string option \<Rightarrow> int option \<Rightarrow> string option \<Rightarrow> provider" where
  "new_PendoProvider key durl burl ttl secret =
     \<lparr>options = \<lparr>apiKey = key, defaultUrl = durl,
                  baseUrl = (case burl of None \<Rightarrow> ''https://data.pendo.io'' | Some b \<Rightarrow> b),
                  cacheTtl = (case ttl of None \<Rightarrow> 60000 | Some t \<Rightarrow> t),
                  trackEventSecret = secret\<rparr>,
      providerStatus = NOT_READY,
      cache = Map.empty\<rparr>"

definition initialize :: "provider \<Rightarrow> (thrown + unit) \<times> provider" where
  "initialize p =
     (if apiKey (options p) = [] then (Inl (Error ''Pendo API key is required''), p)
      else if defaultUrl (options p) = [] then
        (Inl (Error ''Pendo defaultUrl is required for server-side evaluation''), p)
      else (Inr (), p\<lparr>providerStatus := READY\<rparr>))"

definition onClose :: "provider \<Rightarrow> provider" where
  "onClose p = p\<lparr>providerStatus := NOT_READY, cache := Map.empty\<rparr>"

definition clearCache :: "provider \<Rightarrow> provider" where
  "clearCache p = p\<lparr>cache := Map.empty\<rparr>"

definition track_request :: "platform \<Rightarrow> provider \<Rightarrow> string \<Rightarrow> string \<Rightarrow> string \<Rightarrow>
    string option \<Rightarrow> js_value \<Rightarrow> world \<Rightarrow> request" where
  "track_request env p secret trackingEventName visitorId acct trackingEventDetails w =
     (let payload = JObj
            [(''type'', JStr ''track''),
             (''event'', JStr trackingEventName),
             (''visitorId'', JStr visitorId),
             (''accountId'', (case acct of None \<Rightarrow> JUndefined | Some a \<Rightarrow> JStr a)),
             (''timestamp'', JNum (of_int (now w))),
             (''properties'', trackingEventDetails)]
      in \<lparr>url = baseUrl (options p) @ ''/data/track'',
          httpMethod = ''POST'',
          headers = [(''Content-Type'', ''application/json''),
                     (''x-pendo-track-event-secret'', secret)],
          body = Some (JSON_stringify env payload)\<rparr>)"

definition track ::
  "platform \<Rightarrow> provider \<Rightarrow> string \<Rightarrow> evaluation_context \<Rightarrow> js_value \<Rightarrow> world
     \<Rightarrow> (thrown + unit) \<times> world" where
  "track env p trackingEventName ctx trackingEventDetails w =
     (if \<not> truthy (trackEventSecret (options p)) then
        (Inr (), console_warn ''[PendoProvider] trackEventSecret is required to track events'' w)
      else if \<not> truthy (targetingKey ctx) then
        (Inr (), console_warn
                   ''[PendoProvider] targetingKey (visitorId) is required to track events'' w)
      else
        (case fire_fetch env
                (track_request env p (or_empty (trackEventSecret (options p)))
                   trackingEventName (or_empty (targetingKey ctx)) (accountId ctx)
                   trackingEventDetails w) w of
           (Inl e, w') \<Rightarrow>
             (Inr (), console_error ''[PendoProvider] Failed to track event:'' e w')
         | (Inr r, w') \<Rightarrow> (Inr (), w')))"

definition segmentflag_request :: "platform \<Rightarrow> provider \<Rightarrow> string \<Rightarrow> string option \<Rightarrow> request" where
  "segmentflag_request env p visitorId acct =
     (let jzbPayload = encodeJzb env (JObj
            [(''visitorId'', JStr visitorId),
             (''accountId'', (case acct of None \<Rightarrow> JUndefined | Some a \<Rightarrow> JStr a)),
             (''url'', JStr (defaultUrl (options p)))])
      in \<lparr>url = baseUrl (options p) @ ''/data/segmentflag.json/'' @ apiKey (options p)
                 @ ''?jzb='' @ jzbPayload,
          httpMethod = ''GET'',
          headers = [(''Accept'', ''application/json'')],
          body = None\<rparr>)"

definition fetchSegmentFlags ::
  "platform \<Rightarrow> provider \<Rightarrow> string \<Rightarrow> string option \<Rightarrow> world \<Rightarrow> (thrown + string list) \<times> world" where
  "fetchSegmentFlags env p visitorId acct w =
     (case await_fetch env (segmentflag_request env p visitorId acct) w of
        (Inl e, w') \<Rightarrow> (Inl e, w')
      | (Inr rsp, w') \<Rightarrow>
          if status rsp = 202 then (Inr [], w')
          else if status rsp = 429 then (Inl (Error ''Pendo API rate limit exceeded''), w')
          else if status rsp = 451 then (Inr [], w')
          else if \<not> ok rsp then
            (Inl (Error (''Pendo API error: '' @ string_of_nat (status rsp) @ '' ''
                          @ statusText rsp)), w')
          else (case json rsp of
                  Inl e \<Rightarrow> (Inl e, w')
                | Inr segmentFlags \<Rightarrow>
                    (Inr (case segmentFlags of None \<Rightarrow> [] | Some fs \<Rightarrow> fs), w')))"

definition cacheKey :: "string \<Rightarrow> string option \<Rightarrow> string" where
  "cacheKey visitorId acct = visitorId @ '':'' @ or_empty acct"

text \<open>
  The cache read of \<^verbatim>\<open>getSegmentFlags\<close>:
  \<^verbatim>\<open>cached && cached.expiresAt > Date.now()\<close> decides whether \<^verbatim>\<open>cached.flags\<close> is used.
\<close>

definition cache_lookup :: "(string \<rightharpoonup> cache_entry) \<Rightarrow> string \<Rightarrow> int \<Rightarrow> string list option" where
  "cache_lookup c k t =
     (case c k of
        None \<Rightarrow> None
      | Some cached \<Rightarrow> if expiresAt cached > t then Some (flags cached) else None)"

definition no_targetingKey ::
  "provider \<Rightarrow> world \<Rightarrow> (thrown + string list option) \<times> provider \<times> world" where
  "no_targetingKey p w =
     (Inr None, p,
      console_warn ''[PendoProvider] No targetingKey (visitor ID) provided in context'' w)"

definition getSegmentFlags ::
  "platform \<Rightarrow> provider \<Rightarrow> evaluation_context \<Rightarrow> world
     \<Rightarrow> (thrown + string list option) \<times> provider \<times> world" where
  "getSegmentFlags env p ctx w =
     (case targetingKey ctx of
        None \<Rightarrow> no_targetingKey p w
      | Some visitorId \<Rightarrow>
          if visitorId = [] then no_targetingKey p w
          else
            (case cache_lookup (cache p) (cacheKey visitorId (accountId ctx)) (now w) of
               Some fs \<Rightarrow> (Inr (Some fs), p, w)
             | None \<Rightarrow>
                 (case fetchSegmentFlags env p visitorId (accountId ctx) w of
                    (Inl e, w') \<Rightarrow>
                      (Inl e, p,
                       console_error ''[PendoProvider] Failed to fetch segment flags:'' e w')
                  | (Inr fs, w') \<Rightarrow>
                      (Inr (Some fs),
                       p\<lparr>cache := (cache p)(cacheKey visitorId (accountId ctx) \<mapsto>
                            \<lparr>flags = fs,
                             expiresAt = now w' + cacheTtl (options p)\<rparr>)\<rparr>,
                       w'))))"

text \<open>The body of the \<^verbatim>\<open>try\<close> block of \<^verbatim>\<open>resolveBooleanEvaluation\<close>.\<close>

definition resolveBoolean_try ::
  "platform \<Rightarrow> provider \<Rightarrow> string \<Rightarrow> bool \<Rightarrow> evaluation_context \<Rightarrow> world
     \<Rightarrow> (thrown + bool resolution_details) \<times> provider \<times> world" where
  "resolveBoolean_try env p flagKey defaultValue ctx w =
     (case getSegmentFlags env p ctx w of
        (Inl e, p', w') \<Rightarrow> (Inl e, p', w')
      | (Inr None, p', w') \<Rightarrow>
          (Inr \<lparr>val = defaultValue, reason = DEFAULT, variant = Some ''default'',
                errorCode = None, errorMessage = None\<rparr>, p', w')
      | (Inr (Some fs), p', w') \<Rightarrow>
          (let enabled = (flagKey \<in> set fs)
           in (Inr \<lparr>val = enabled,
                     reason = (if enabled then TARGETING_MATCH else DEFAULT),
                     variant = Some (if enabled then ''on'' else ''off''),
                     errorCode = None, errorMessage = None\<rparr>, p', w')))"

definition resolveBooleanEvaluation ::
  "platform \<Rightarrow> provider \<Rightarrow> string \<Rightarrow> bool \<Rightarrow> evaluation_context \<Rightarrow> world
     \<Rightarrow> (thrown + bool resolution_details) \<times> provider \<times> world" where
  "resolveBooleanEvaluation env p flagKey defaultValue ctx w =
     (case resolveBoolean_try env p flagKey defaultValue ctx w of
        (Inr r, p', w') \<Rightarrow> (Inr r, p', w')
      | (Inl e, p', w') \<Rightarrow>
          (Inr \<lparr>val = defaultValue, reason = ERROR, variant = None,
                errorCode = Some GENERAL,
                errorMessage = Some (case e of Error m \<Rightarrow> m | NonError \<Rightarrow> ''Unknown error'')\<rparr>,
           p', console_error ''[PendoProvider] Error evaluating flag:'' e w'))"

definition resolveStringEvaluation ::
  "platform \<Rightarrow> provider \<Rightarrow> string \<Rightarrow> string \<Rightarrow> evaluation_context \<Rightarrow> world
     \<Rightarrow> (thrown + string resolution_details) \<times> provider \<times> world" where
  "resolveStringEvaluation env p flagKey defaultValue ctx w =
     (case resolveBooleanEvaluation env p flagKey False ctx w of
        (Inl e, p', w') \<Rightarrow> (Inl e, p', w')
      | (Inr boolResult, p', w') \<Rightarrow>
          if reason boolResult = ERROR then
            (Inr \<lparr>val = defaultValue, reason = ERROR, variant = None,
                  errorCode = errorCode boolResult,
                  errorMessage = errorMessage boolResult\<rparr>, p', w')
          else if reason boolResult = DEFAULT \<and> \<not> val boolResult then
            (Inr \<lparr>val = defaultValue, reason = DEFAULT, variant = Some ''default'',
                  errorCode = None, errorMessage = None\<rparr>, p', w')
          else
            (Inr \<lparr>val = (if val boolResult then ''on'' else ''off''),
                  reason = reason boolResult, variant = variant boolResult,
                  errorCode = None, errorMessage = None\<rparr>, p', w'))"

definition resolveNumberEvaluation ::
  "platform \<Rightarrow> provider \<Rightarrow> string \<Rightarrow> real \<Rightarrow> evaluation_context \<Rightarrow> world
     \<Rightarrow> (thrown + real resolution_details) \<times> provider \<times> world" where
  "resolveNumberEvaluation env p flagKey defaultValue ctx w =
     (case resolveBooleanEvaluation env p flagKey False ctx w of
        (Inl e, p', w') \<Rightarrow> (Inl e, p', w')
      | (Inr boolResult, p', w') \<Rightarrow>
          if reason boolResult = ERROR then
            (Inr \<lparr>val = defaultValue, reason = ERROR, variant = None,
                  errorCode = errorCode boolResult,
                  errorMessage = errorMessage boolResult\<rparr>, p', w')
          else if reason boolResult = DEFAULT \<and> \<not> val boolResult then
            (Inr \<lparr>val = defaultValue, reason = DEFAULT, variant = Some ''default'',
                  errorCode = None, errorMessage = None\<rparr>, p', w')
          else
            (Inr \<lparr>val = (if val boolResult then 1 else 0),
                  reason = reason boolResult, variant = variant boolResult,
                  errorCode = None, errorMessage = None\<rparr>, p', w'))"

definition resolveObjectEvaluation ::
  "platform \<Rightarrow> provider \<Rightarrow> string \<Rightarrow> js_value \<Rightarrow> evaluation_context \<Rightarrow> world
     \<Rightarrow> (thrown + js_value resolution_details) \<times> provider \<times> world" where
  "resolveObjectEvaluation env p flagKey defaultValue ctx w =
     (case resolveBooleanEvaluation env p flagKey False ctx w of
        (Inl e, p', w') \<Rightarrow> (Inl e, p', w')
      | (Inr boolResult, p', w') \<Rightarrow>
          if reason boolResult = ERROR then
            (Inr \<lparr>val = defaultValue, reason = ERROR, variant = None,
                  errorCode = errorCode boolResult,
                  errorMessage = errorMessage boolResult\<rparr>, p', w')
          else if reason boolResult = DEFAULT \<and> \<not> val boolResult then
            (Inr \<lparr>val = defaultValue, reason = DEFAULT, variant = Some ''default'',
                  errorCode = None, errorMessage = None\<rparr>, p', w')
          else
            (Inr \<lparr>val = JObj [(''enabled'', JBool (val boolResult))],
                  reason = reason boolResult, variant = variant boolResult,
                  errorCode = None, errorMessage = None\<rparr>, p', w'))"


section \<open>Notions used to state and prove the properties\<close>

text \<open>The two replacements of \<^verbatim>\<open>encodeJzb\<close> and of \<^verbatim>\<open>decodeJzb\<close>, character by character.\<close>

definition to_url :: "char \<Rightarrow> char" where
  "to_url c = (if c = CHR ''+'' then CHR ''-'' else if c = CHR ''/'' then CHR ''_'' else c)"

definition from_url :: "char \<Rightarrow> char" where
  "from_url c = (if c = CHR ''-'' then CHR ''+'' else if c = CHR ''_'' then CHR ''/'' else c)"

text \<open>Steps 3 and 4 of \<^verbatim>\<open>encodeJzb\<close>, and the padding step of \<^verbatim>\<open>decodeJzb\<close>.\<close>

definition url_token :: "byte list \<Rightarrow> string" where
  "url_token bs = strip_padding (map to_url (b64enc bs))"

definition pad_base64 :: "string \<Rightarrow> string" where
  "pad_base64 s = (if length s mod 4 > 0 then s @ replicate (4 - length s mod 4) (CHR ''='') else s)"

text \<open>The shapes of \<^verbatim>\<open>ResolutionDetails\<close> that the provider returns.\<close>

abbreviation default_result :: "'a \<Rightarrow> 'a resolution_details" where
  "default_result d \<equiv>
     \<lparr>val = d, reason = DEFAULT, variant = Some ''default'', errorCode = None, errorMessage = None\<rparr>"

abbreviation on_result :: "bool resolution_details" where
  "on_result \<equiv>
     \<lparr>val = True, reason = TARGETING_MATCH, variant = Some ''on'', errorCode = None, errorMessage = None\<rparr>"

abbreviation off_result :: "bool resolution_details" where
  "off_result \<equiv>
     \<lparr>val = False, reason = DEFAULT, variant = Some ''off'', errorCode = None, errorMessage = None\<rparr>"

abbreviation error_result :: "'a \<Rightarrow> string \<Rightarrow> 'a resolution_details" where
  "error_result d msg \<equiv>
     \<lparr>val = d, reason = ERROR, variant = None, errorCode = Some GENERAL, errorMessage = Some msg\<rparr>"

text \<open>
  \<^verbatim>\<open>error instanceof Error ? error.message : "Unknown error"\<close>, and the two console
  records that a failed fetch leaves (one in \<^verbatim>\<open>getSegmentFlags\<close>, one in
  \<^verbatim>\<open>resolveBooleanEvaluation\<close>).
\<close>

abbreviation thrown_message :: "thrown \<Rightarrow> string" where
  "thrown_message e \<equiv> (case e of Error m \<Rightarrow> m | NonError \<Rightarrow> ''Unknown error'')"

abbreviation logged_twice :: "thrown \<Rightarrow> world \<Rightarrow> world" where
  "logged_twice e w \<equiv>
     console_error ''[PendoProvider] Error evaluating flag:'' e
       (console_error ''[PendoProvider] Failed to fetch segment flags:'' e w)"

text \<open>
  The rule by which the specification derives a typed resolution from the boolean one:
  an \<open>ERROR\<close> keeps the default value and carries the error code and message over;
  \<open>DEFAULT\<close> with value false gives the default value with variant \<^verbatim>\<open>default\<close>; anything
  else is translated into the on/off representation of the type, reason and variant
  unchanged.
\<close>

definition derive_from_boolean ::
  "'a \<Rightarrow> 'a \<Rightarrow> 'a \<Rightarrow> bool resolution_details \<Rightarrow> 'a resolution_details" where
  "derive_from_boolean onRep offRep defaultValue b =
     (if reason b = ERROR then
        \<lparr>val = defaultValue, reason = ERROR, variant = None,
         errorCode = errorCode b, errorMessage = errorMessage b\<rparr>
      else if reason b = DEFAULT \<and> val b = False then
        \<lparr>val = defaultValue, reason = DEFAULT, variant = Some ''default'',
         errorCode = None, errorMessage = None\<rparr>
      else
        \<lparr>val = (if val b then onRep else offRep), reason = reason b, variant = variant b,
         errorCode = None, errorMessage = None\<rparr>)"

text \<open>
  The test doubles of \<^verbatim>\<open>PendoProvider.spec.ts\<close>: a \<^verbatim>\<open>fetch\<close> that always settles the same
  way, the provider of \<^verbatim>\<open>beforeEach\<close>, and collaborators that handle the empty object
  (whose zlib stream is the ten bytes below).
\<close>

definition mock_platform :: "(thrown + response) \<Rightarrow> platform" where
  "mock_platform outcome =
     \<lparr>JSON_stringify = (\<lambda>v. ''{}''),
      JSON_parse = (\<lambda>s. Inr (JObj [])),
      pako_deflate = (\<lambda>s. [120, 156, 171, 174, 5, 0, 1, 117, 0, 249]),
      pako_inflate = (\<lambda>bs. Inr ''{}''),
      fetch = (\<lambda>history t rq. (outcome, 5))\<rparr>"

definition mock_response :: "nat \<Rightarrow> bool \<Rightarrow> string \<Rightarrow> string list option \<Rightarrow> response" where
  "mock_response st is_ok txt segmentFlags =
     \<lparr>status = st, ok = is_ok, statusText = txt, json = Inr segmentFlags\<rparr>"

definition test_provider :: provider where
  "test_provider = new_PendoProvider ''test-api-key'' ''https://example.com'' None None None"

definition test_world :: world where
  "test_world = \<lparr>now = 1000, calls = [], console = []\<rparr>"


section \<open>Base64 and the URL-safe token\<close>

lemma b64_alphabet_length: "length b64_alphabet = 64"
  by (simp add: b64_alphabet_def)

lemma b64_alphabet_distinct: "distinct b64_alphabet"
  by (simp add: b64_alphabet_def)

lemma index_of_nth: "distinct xs \<Longrightarrow> i < length xs \<Longrightarrow> index_of xs (xs ! i) = Some i"
proof (induction xs arbitrary: i)
  case Nil
  then show ?case by simp
next
  case (Cons x xs)
  show ?case
  proof (cases i)
    case 0
    then show ?thesis by simp
  next
    case (Suc j)
    with Cons show ?thesis by auto
  qed
qed

lemma b64_index_char: "i < 64 \<Longrightarrow> b64_index (b64_char i) = Some i"
  by (simp add: b64_index_def b64_char_def index_of_nth b64_alphabet_distinct b64_alphabet_length)

lemma b64_char_in_alphabet: "i < 64 \<Longrightarrow> b64_char i \<in> set b64_alphabet"
  by (simp add: b64_char_def b64_alphabet_length)

lemma to_url_map: "replace_char (CHR ''/'') (CHR ''_'') (replace_char (CHR ''+'') (CHR ''-'') s) = map to_url s"
  by (simp add: replace_char_def to_url_def)

lemma from_url_map: "replace_char (CHR ''_'') (CHR ''/'') (replace_char (CHR ''-'') (CHR ''+'') s) = map from_url s"
  by (simp add: replace_char_def from_url_def)

lemma alphabet_chars:
  "\<forall>c \<in> set b64_alphabet. from_url (to_url c) = c \<and> to_url c \<noteq> CHR ''='' \<and> url_safe_char (to_url c)
      \<and> b64_index (from_url (to_url c)) \<noteq> None"
  by (simp add: b64_alphabet_def to_url_def from_url_def url_safe_char_def b64_index_def)

lemma b64_index_eq: "b64_index (CHR ''='') = None"
  by (simp add: b64_index_def b64_alphabet_def)

lemma unat_byte_less: "unat (a :: byte) < 256"
  using unsigned_less [of a] by simp

lemma sextet_bounds:
  "unat (a :: byte) div 4 < 64"
  "unat (a :: byte) mod 4 * 16 < 64"
  "unat (a :: byte) mod 4 * 16 + unat (b :: byte) div 16 < 64"
  "unat (b :: byte) mod 16 * 4 < 64"
  "unat (b :: byte) mod 16 * 4 + unat (c :: byte) div 64 < 64"
  "unat (c :: byte) mod 64 < 64"
proof -
  have a: "unat a mod 4 < 4" and b: "unat b mod 16 < 16" by simp_all
  have b': "unat b div 16 < 16" and c': "unat c div 64 < 4"
    using unat_byte_less [of b] unat_byte_less [of c] by simp_all
  show "unat a div 4 < 64" using unat_byte_less [of a] by simp
  show "unat a mod 4 * 16 < 64" using a by linarith
  show "unat a mod 4 * 16 + unat b div 16 < 64" using a b' by linarith
  show "unat b mod 16 * 4 < 64" using b by linarith
  show "unat b mod 16 * 4 + unat c div 64 < 64" using b c' by linarith
  show "unat c mod 64 < 64" by simp
qed

lemma sextet_nat:
  fixes A B C :: nat
  assumes "B < 256" "C < 256"
  shows "A div 4 * 4 + (A mod 4 * 16 + B div 16) div 16 = A"
    and "A div 4 * 4 + (A mod 4 * 16) div 16 = A"
    and "(A mod 4 * 16 + B div 16) mod 16 * 16 + (B mod 16 * 4 + C div 64) div 4 = B"
    and "(A mod 4 * 16 + B div 16) mod 16 * 16 + (B mod 16 * 4) div 4 = B"
    and "(B mod 16 * 4 + C div 64) mod 4 * 64 + C mod 64 = C"
proof -
  have b: "B div 16 < 16" and c: "C div 64 < 4" using assms by simp_all
  have 1: "(A mod 4 * 16 + B div 16) div 16 = A mod 4" using b by simp
  have 2: "(A mod 4 * 16 + B div 16) mod 16 = B div 16" using b by simp
  have 3: "(B mod 16 * 4 + C div 64) div 4 = B mod 16" using c by simp
  have 4: "(B mod 16 * 4 + C div 64) mod 4 = C div 64" using c by simp
  show "A div 4 * 4 + (A mod 4 * 16 + B div 16) div 16 = A" by (simp only: 1) simp
  show "A div 4 * 4 + (A mod 4 * 16) div 16 = A" by simp
  show "(A mod 4 * 16 + B div 16) mod 16 * 16 + (B mod 16 * 4 + C div 64) div 4 = B"
    by (simp only: 2 3) simp
  show "(A mod 4 * 16 + B div 16) mod 16 * 16 + (B mod 16 * 4) div 4 = B"
    by (simp only: 2) simp
  show "(B mod 16 * 4 + C div 64) mod 4 * 64 + C mod 64 = C" by (simp only: 4) simp
qed

lemma sextet_bytes:
  fixes a b c :: byte
  shows "(of_nat (unat a div 4 * 4 + (unat a mod 4 * 16 + unat b div 16) div 16) :: byte) = a"
    and "(of_nat (unat a div 4 * 4 + (unat a mod 4 * 16) div 16) :: byte) = a"
    and "(of_nat ((unat a mod 4 * 16 + unat b div 16) mod 16 * 16
                 + (unat b mod 16 * 4 + unat c div 64) div 4) :: byte) = b"
    and "(of_nat ((unat a mod 4 * 16 + unat b div 16) mod 16 * 16
                 + (unat b mod 16 * 4) div 4) :: byte) = b"
    and "(of_nat ((unat b mod 16 * 4 + unat c div 64) mod 4 * 64 + unat c mod 64) :: byte) = c"
  by (simp_all only: sextet_nat [OF unat_byte_less unat_byte_less]) simp_all

lemma b64_char_facts:
  assumes "i < 64"
  shows "from_url (to_url (b64_char i)) = b64_char i"
    and "to_url (b64_char i) \<noteq> CHR ''=''"
    and "url_safe_char (to_url (b64_char i))"
  using alphabet_chars b64_char_in_alphabet [OF assms] by blast+

lemma strip_padding_snoc:
  assumes "z \<noteq> CHR ''=''"
  shows "strip_padding (q @ z # X) = q @ z # strip_padding X"
  using assms by (auto simp: strip_padding_def dropWhile_append)

lemma strip_padding_pads [simp]:
  "strip_padding [] = []"
  "strip_padding [CHR ''=''] = []"
  "strip_padding [CHR ''='', CHR ''=''] = []"
  by (simp_all add: strip_padding_def)

lemma url_token_Nil: "url_token [] = []"
  by (simp add: url_token_def)

lemma url_token_1:
  "url_token [a] = [to_url (b64_char (unat a div 4)), to_url (b64_char (unat a mod 4 * 16))]"
  using strip_padding_snoc [of "to_url (b64_char (unat a mod 4 * 16))"
          "[to_url (b64_char (unat a div 4))]" "[CHR ''='', CHR ''='']"]
        b64_char_facts(2) [OF sextet_bounds(2) [of a]]
  by (simp add: url_token_def to_url_def)

lemma url_token_2:
  "url_token [a, b] =
     [to_url (b64_char (unat a div 4)), to_url (b64_char (unat a mod 4 * 16 + unat b div 16)),
      to_url (b64_char (unat b mod 16 * 4))]"
  using strip_padding_snoc [of "to_url (b64_char (unat b mod 16 * 4))"
          "[to_url (b64_char (unat a div 4)), to_url (b64_char (unat a mod 4 * 16 + unat b div 16))]"
          "[CHR ''='']"]
        b64_char_facts(2) [OF sextet_bounds(4) [of b]]
  by (simp add: url_token_def to_url_def)

lemma url_token_3:
  "url_token (a # b # c # rest) =
     [to_url (b64_char (unat a div 4)), to_url (b64_char (unat a mod 4 * 16 + unat b div 16)),
      to_url (b64_char (unat b mod 16 * 4 + unat c div 64)), to_url (b64_char (unat c mod 64))]
     @ url_token rest"
  using strip_padding_snoc [of "to_url (b64_char (unat c mod 64))"
          "[to_url (b64_char (unat a div 4)), to_url (b64_char (unat a mod 4 * 16 + unat b div 16)),
            to_url (b64_char (unat b mod 16 * 4 + unat c div 64))]"
          "map to_url (b64enc rest)"]
        b64_char_facts(2) [OF sextet_bounds(6) [of c]]
  by (simp add: url_token_def)

lemma url_token_safe: "list_all url_safe_char (url_token bs)"
proof (induction bs rule: b64enc.induct)
  case 1
  show ?case by (simp add: url_token_Nil)
next
  case (2 a)
  show ?case by (simp add: url_token_1 b64_char_facts(3) sextet_bounds)
next
  case (3 a b)
  show ?case by (simp add: url_token_2 b64_char_facts(3) sextet_bounds)
next
  case (4 a b c rest)
  then show ?case by (simp add: url_token_3 b64_char_facts(3) sextet_bounds)
qed

lemma url_token_nonempty: "bs \<noteq> [] \<Longrightarrow> url_token bs \<noteq> []"
  by (induction bs rule: b64enc.induct) (simp_all add: url_token_1 url_token_2 url_token_3)

lemma index_from_url: "i < 64 \<Longrightarrow> b64_index (from_url (to_url (b64_char i))) = Some i"
  by (simp add: b64_char_facts(1) b64_index_char)

lemma pad_base64_quad: "pad_base64 (c0 # c1 # c2 # c3 # s) = c0 # c1 # c2 # c3 # pad_base64 s"
proof -
  have "length (c0 # c1 # c2 # c3 # s) mod 4 = length s mod 4"
  proof -
    have "length (c0 # c1 # c2 # c3 # s) = 4 + length s" by simp
    then show ?thesis by (simp only: mod_add_self1)
  qed
  then show ?thesis by (simp add: pad_base64_def)
qed

lemma replicate_2: "replicate 2 x = [x, x]"
  by (simp add: numeral_2_eq_2)

lemma b64dec_quad:
  assumes "b64_index c0 = Some i0" "b64_index c1 = Some i1"
    and "b64_index c2 = Some i2" "b64_index c3 = Some i3"
  shows "b64dec (c0 # c1 # c2 # c3 # s) =
           [of_nat (i0 * 4 + i1 div 16), of_nat (i1 mod 16 * 16 + i2 div 4),
            of_nat (i2 mod 4 * 64 + i3)] @ b64dec s"
  using assms by simp

lemma b64dec_pad1:
  assumes "b64_index c0 = Some i0" "b64_index c1 = Some i1" "b64_index c2 = Some i2"
  shows "b64dec [c0, c1, c2, CHR ''=''] =
           [of_nat (i0 * 4 + i1 div 16), of_nat (i1 mod 16 * 16 + i2 div 4)]"
  using assms by (simp add: b64_index_eq)

lemma b64dec_pad2:
  assumes "b64_index c0 = Some i0" "b64_index c1 = Some i1"
  shows "b64dec [c0, c1, CHR ''='', CHR ''=''] = [of_nat (i0 * 4 + i1 div 16)]"
  using assms by (simp add: b64_index_eq)

lemma b64_roundtrip: "b64dec (pad_base64 (map from_url (url_token bs))) = bs"
proof (induction bs rule: b64enc.induct)
  case 1
  show ?case by (simp add: url_token_Nil pad_base64_def)
next
  case (2 a)
  have "b64dec (pad_base64 (map from_url (url_token [a]))) =
        b64dec [from_url (to_url (b64_char (unat a div 4))),
                from_url (to_url (b64_char (unat a mod 4 * 16))), CHR ''='', CHR ''='']"
    by (simp add: url_token_1 pad_base64_def replicate_2)
  also have "\<dots> = [of_nat (unat a div 4 * 4 + (unat a mod 4 * 16) div 16)]"
    by (rule b64dec_pad2 [OF index_from_url index_from_url]) (rule sextet_bounds)+
  also have "\<dots> = [a]"
    by (simp only: sextet_bytes)
  finally show ?case .
next
  case (3 a b)
  have "b64dec (pad_base64 (map from_url (url_token [a, b]))) =
        b64dec [from_url (to_url (b64_char (unat a div 4))),
                from_url (to_url (b64_char (unat a mod 4 * 16 + unat b div 16))),
                from_url (to_url (b64_char (unat b mod 16 * 4))), CHR ''='']"
    by (simp add: url_token_2 pad_base64_def)
  also have "\<dots> = [of_nat (unat a div 4 * 4 + (unat a mod 4 * 16 + unat b div 16) div 16),
                    of_nat ((unat a mod 4 * 16 + unat b div 16) mod 16 * 16
                            + (unat b mod 16 * 4) div 4)]"
    by (rule b64dec_pad1 [OF index_from_url index_from_url index_from_url])
       (rule sextet_bounds)+
  also have "\<dots> = [a, b]"
    by (simp only: sextet_bytes)
  finally show ?case .
next
  case (4 a b c rest)
  have "b64dec (pad_base64 (map from_url (url_token (a # b # c # rest)))) =
        b64dec (from_url (to_url (b64_char (unat a div 4))) #
                from_url (to_url (b64_char (unat a mod 4 * 16 + unat b div 16))) #
                from_url (to_url (b64_char (unat b mod 16 * 4 + unat c div 64))) #
                from_url (to_url (b64_char (unat c mod 64))) #
                pad_base64 (map from_url (url_token rest)))"
    by (simp add: url_token_3 pad_base64_quad)
  also have "\<dots> =
        [of_nat (unat a div 4 * 4 + (unat a mod 4 * 16 + unat b div 16) div 16),
         of_nat ((unat a mod 4 * 16 + unat b div 16) mod 16 * 16
                 + (unat b mod 16 * 4 + unat c div 64) div 4),
         of_nat ((unat b mod 16 * 4 + unat c div 64) mod 4 * 64 + unat c mod 64)]
        @ b64dec (pad_base64 (map from_url (url_token rest)))"
    by (rule b64dec_quad [OF index_from_url index_from_url index_from_url index_from_url])
       (rule sextet_bounds)+
  also have "\<dots> = [a, b, c] @ rest"
    by (simp only: sextet_bytes "4.IH")
  finally show ?case by simp
qed


section \<open>Resolution\<close>

lemma getSegmentFlags_no_visitor:
  "\<not> truthy (targetingKey ctx) \<Longrightarrow> getSegmentFlags env p ctx w = no_targetingKey p w"
  by (simp add: getSegmentFlags_def truthy_def split: option.splits)

lemma resolveBoolean_no_visitor:
  assumes "\<not> truthy (targetingKey ctx)"
  shows "resolveBooleanEvaluation env p flagKey defaultValue ctx w =
           (Inr (default_result defaultValue), p,
            console_warn ''[PendoProvider] No targetingKey (visitor ID) provided in context'' w)"
  by (simp add: resolveBooleanEvaluation_def resolveBoolean_try_def
        getSegmentFlags_no_visitor [OF assms] no_targetingKey_def)

lemma resolveBoolean_total:
  "\<exists>r p' w'. resolveBooleanEvaluation env p flagKey defaultValue ctx w = (Inr r, p', w')"
  by (simp add: resolveBooleanEvaluation_def split: prod.splits sum.splits)

text \<open>
  Claim C5. For every flag key and default value, when the context has no visitor id
  (\<^verbatim>\<open>targetingKey\<close> absent or empty), each of the four resolution operations returns the
  default value unchanged with reason \<open>DEFAULT\<close> and variant \<^verbatim>\<open>default\<close>; the provider
  (and so its cache) is returned as it was, whatever the cache holds, and the only
  effect is a console warning: no request is made.
\<close>

theorem no_visitor_default:
  assumes "\<not> truthy (targetingKey ctx)"
  shows "resolveBooleanEvaluation env p flagKey db ctx w =
           (Inr (default_result db), p,
            console_warn ''[PendoProvider] No targetingKey (visitor ID) provided in context'' w)
       \<and> resolveStringEvaluation env p flagKey ds ctx w =
           (Inr (default_result ds), p,
            console_warn ''[PendoProvider] No targetingKey (visitor ID) provided in context'' w)
       \<and> resolveNumberEvaluation env p flagKey dn ctx w =
           (Inr (default_result dn), p,
            console_warn ''[PendoProvider] No targetingKey (visitor ID) provided in context'' w)
       \<and> resolveObjectEvaluation env p flagKey dj ctx w =
           (Inr (default_result dj), p,
            console_warn ''[PendoProvider] No targetingKey (visitor ID) provided in context'' w)
       \<and> calls (console_warn ''[PendoProvider] No targetingKey (visitor ID) provided in context'' w)
           = calls w"
  by (simp add: resolveStringEvaluation_def resolveNumberEvaluation_def
        resolveObjectEvaluation_def resolveBoolean_no_visitor [OF assms] console_warn_def)

lemma derived_from_boolean_result:
  assumes "resolveBooleanEvaluation env p flagKey False ctx w = (Inr b, p', w')"
  shows "resolveStringEvaluation env p flagKey ds ctx w =
           (Inr (derive_from_boolean ''on'' ''off'' ds b), p', w')"
    and "resolveNumberEvaluation env p flagKey dn ctx w =
           (Inr (derive_from_boolean 1 0 dn b), p', w')"
    and "resolveObjectEvaluation env p flagKey dj ctx w =
           (Inr (derive_from_boolean (JObj [(''enabled'', JBool True)])
                   (JObj [(''enabled'', JBool False)]) dj b), p', w')"
  by (simp_all add: resolveStringEvaluation_def resolveNumberEvaluation_def
        resolveObjectEvaluation_def assms derive_from_boolean_def)

text \<open>
  Claim C6. \<^verbatim>\<open>resolveStringEvaluation\<close>, \<^verbatim>\<open>resolveNumberEvaluation\<close> and
  \<^verbatim>\<open>resolveObjectEvaluation\<close> each return what the rule \<open>derive_from_boolean\<close> makes of
  the result of \<^verbatim>\<open>resolveBooleanEvaluation(flagKey, false, context)\<close>, with the
  representations \<^verbatim>\<open>"on"\<close>/\<^verbatim>\<open>"off"\<close>, \<^verbatim>\<open>1\<close>/\<^verbatim>\<open>0\<close> and \<^verbatim>\<open>{enabled: true|false}\<close>.
\<close>

theorem derived_resolvers_rule:
  "\<exists>b p' w'.
      resolveBooleanEvaluation env p flagKey False ctx w = (Inr b, p', w')
    \<and> resolveStringEvaluation env p flagKey ds ctx w =
        (Inr (derive_from_boolean ''on'' ''off'' ds b), p', w')
    \<and> resolveNumberEvaluation env p flagKey dn ctx w =
        (Inr (derive_from_boolean 1 0 dn b), p', w')
    \<and> resolveObjectEvaluation env p flagKey dj ctx w =
        (Inr (derive_from_boolean (JObj [(''enabled'', JBool True)])
                (JObj [(''enabled'', JBool False)]) dj b), p', w')"
proof -
  obtain b p' w' where b: "resolveBooleanEvaluation env p flagKey False ctx w = (Inr b, p', w')"
    using resolveBoolean_total by blast
  from b derived_from_boolean_result [OF b] show ?thesis by blast
qed

text \<open>
  Claim C7. \<^verbatim>\<open>initialize()\<close> rejects exactly when the API key or the default URL is
  empty; the API key is checked first (its message wins when both are empty); otherwise
  the status becomes \<open>READY\<close>. \<^verbatim>\<open>onClose()\<close> sets the status to \<open>NOT_READY\<close> and
  empties the cache.
\<close>

theorem initialize_lifecycle:
  "((\<exists>e. fst (initialize p) = Inl e) \<longleftrightarrow> (apiKey (options p) = [] \<or> defaultUrl (options p) = []))
   \<and> (apiKey (options p) = [] \<longrightarrow>
        initialize p = (Inl (Error ''Pendo API key is required''), p))
   \<and> (apiKey (options p) \<noteq> [] \<and> defaultUrl (options p) = [] \<longrightarrow>
        initialize p =
          (Inl (Error ''Pendo defaultUrl is required for server-side evaluation''), p))
   \<and> (apiKey (options p) \<noteq> [] \<and> defaultUrl (options p) \<noteq> [] \<longrightarrow>
        initialize p = (Inr (), p\<lparr>providerStatus := READY\<rparr>))
   \<and> providerStatus (onClose p) = NOT_READY
   \<and> cache (onClose p) = Map.empty
   \<and> options (onClose p) = options p"
  by (simp add: initialize_def onClose_def)



lemma await_fetch_calls:
  "await_fetch env rq w = (outcome, w') \<Longrightarrow>
     calls w' = calls w @ [rq] \<and> console w' = console w
     \<and> now w' = now w + int (snd (fetch env (calls w) (now w) rq))"
  by (auto simp: await_fetch_def split: prod.splits)

lemma fetchSegmentFlags_world:
  "fetchSegmentFlags env p visitorId acct w = (res, w') \<Longrightarrow>
     w' = snd (await_fetch env (segmentflag_request env p visitorId acct) w)"
  by (auto simp: fetchSegmentFlags_def split: prod.splits sum.splits if_splits)

lemma getSegmentFlags_hit:
  assumes "targetingKey ctx = Some visitorId" "visitorId \<noteq> []"
    and "cache_lookup (cache p) (cacheKey visitorId (accountId ctx)) (now w) = Some fs"
  shows "getSegmentFlags env p ctx w = (Inr (Some fs), p, w)"
  using assms by (simp add: getSegmentFlags_def)

lemma getSegmentFlags_miss:
  assumes "targetingKey ctx = Some visitorId" "visitorId \<noteq> []"
    and "cache_lookup (cache p) (cacheKey visitorId (accountId ctx)) (now w) = None"
  shows "getSegmentFlags env p ctx w =
     (case fetchSegmentFlags env p visitorId (accountId ctx) w of
        (Inl e, w') \<Rightarrow>
          (Inl e, p, console_error ''[PendoProvider] Failed to fetch segment flags:'' e w')
      | (Inr fs, w') \<Rightarrow>
          (Inr (Some fs),
           p\<lparr>cache := (cache p)(cacheKey visitorId (accountId ctx) \<mapsto>
                \<lparr>flags = fs, expiresAt = now w' + cacheTtl (options p)\<rparr>)\<rparr>,
           w'))"
  using assms by (simp add: getSegmentFlags_def)

lemma getSegmentFlags_visitor:
  assumes "truthy (targetingKey ctx)"
  shows "fst (getSegmentFlags env p ctx w) \<noteq> Inr None"
  using assms
  by (auto simp: getSegmentFlags_def truthy_def split: option.splits prod.splits sum.splits)

lemma resolveBoolean_of_flags:
  assumes "getSegmentFlags env p ctx w = (Inr (Some fs), p', w')"
  shows "resolveBooleanEvaluation env p flagKey defaultValue ctx w =
           (Inr (if flagKey \<in> set fs then on_result else off_result), p', w')"
  using assms by (simp add: resolveBooleanEvaluation_def resolveBoolean_try_def)

lemma resolveBoolean_of_error:
  assumes "getSegmentFlags env p ctx w = (Inl e, p', w')"
  shows "resolveBooleanEvaluation env p flagKey defaultValue ctx w =
           (Inr (error_result defaultValue
                   (case e of Error m \<Rightarrow> m | NonError \<Rightarrow> ''Unknown error'')), p',
            console_error ''[PendoProvider] Error evaluating flag:'' e w')"
  using assms by (simp add: resolveBooleanEvaluation_def resolveBoolean_try_def)

text \<open>
  Claim C1. For every flag key and every context whose visitor id is present, once
  \<^verbatim>\<open>getSegmentFlags\<close> has produced a flag set \<open>fs\<close> (from the cache or from the remote
  service), \<^verbatim>\<open>resolveBooleanEvaluation\<close> returns value true, reason \<open>TARGETING_MATCH\<close>,
  variant \<^verbatim>\<open>on\<close> exactly when the flag key is in \<open>fs\<close>, and value false, reason
  \<open>DEFAULT\<close>, variant \<^verbatim>\<open>off\<close> exactly when it is not. The default value does not occur
  in the result.
\<close>

theorem resolveBoolean_membership:
  assumes "truthy (targetingKey ctx)"
    and "getSegmentFlags env p ctx w = (Inr (Some fs), p', w')"
  shows "resolveBooleanEvaluation env p flagKey defaultValue ctx w =
           (Inr (if flagKey \<in> set fs then on_result else off_result), p', w')
       \<and> (fst (resolveBooleanEvaluation env p flagKey defaultValue ctx w) = Inr on_result
            \<longleftrightarrow> flagKey \<in> set fs)
       \<and> (fst (resolveBooleanEvaluation env p flagKey defaultValue ctx w) = Inr off_result
            \<longleftrightarrow> flagKey \<notin> set fs)"
  by (simp add: resolveBoolean_of_flags [OF assms(2)])


lemma calls_console [simp]:
  "calls (console_warn msg w) = calls w"
  "calls (console_error msg e w) = calls w"
  "now (console_warn msg w) = now w"
  "now (console_error msg e w) = now w"
  by (simp_all add: console_warn_def console_error_def)

lemma segmentflag_request_options:
  "options p' = options p \<Longrightarrow>
     segmentflag_request env p' visitorId acct = segmentflag_request env p visitorId acct"
  by (simp add: segmentflag_request_def)

lemma fetchSegmentFlags_calls:
  "calls (snd (fetchSegmentFlags env p visitorId acct w)) =
     calls w @ [segmentflag_request env p visitorId acct]"
  by (auto simp: fetchSegmentFlags_def await_fetch_def split: prod.splits sum.splits)

lemma getSegmentFlags_miss_calls:
  assumes "targetingKey ctx = Some visitorId" "visitorId \<noteq> []"
    and "cache_lookup (cache p) (cacheKey visitorId (accountId ctx)) (now w) = None"
  shows "calls (snd (snd (getSegmentFlags env p ctx w))) =
           calls w @ [segmentflag_request env p visitorId (accountId ctx)]"
  using fetchSegmentFlags_calls [of env p visitorId "accountId ctx" w]
  by (auto simp: getSegmentFlags_miss [OF assms] split: prod.splits sum.splits)

lemma resolveBoolean_calls:
  "calls (snd (snd (resolveBooleanEvaluation env p flagKey defaultValue ctx w))) =
     calls (snd (snd (getSegmentFlags env p ctx w)))"
  by (auto simp: resolveBooleanEvaluation_def resolveBoolean_try_def Let_def
           split: prod.splits sum.splits option.splits)

lemma resolveBoolean_miss_calls:
  assumes "targetingKey ctx = Some visitorId" "visitorId \<noteq> []"
    and "cache_lookup (cache p) (cacheKey visitorId (accountId ctx)) (now w) = None"
  shows "calls (snd (snd (resolveBooleanEvaluation env p flagKey defaultValue ctx w))) =
           calls w @ [segmentflag_request env p visitorId (accountId ctx)]"
  by (simp add: resolveBoolean_calls getSegmentFlags_miss_calls [OF assms])


lemma getSegmentFlags_miss_stores:
  assumes "targetingKey ctx = Some visitorId" "visitorId \<noteq> []"
    and "cache_lookup (cache p) (cacheKey visitorId (accountId ctx)) (now w) = None"
    and "getSegmentFlags env p ctx w = (Inr (Some fs), p1, w1)"
  shows "p1 = p\<lparr>cache := (cache p)(cacheKey visitorId (accountId ctx) \<mapsto>
                  \<lparr>flags = fs, expiresAt = now w1 + cacheTtl (options p)\<rparr>)\<rparr>"
    and "calls w1 = calls w @ [segmentflag_request env p visitorId (accountId ctx)]"
    and "console w1 = console w"
proof -
  obtain res w' where f: "fetchSegmentFlags env p visitorId (accountId ctx) w = (res, w')"
    by (cases "fetchSegmentFlags env p visitorId (accountId ctx) w")
  have g: "(Inr (Some fs), p1, w1) =
     (case res of
        Inl e \<Rightarrow>
          (Inl e, p, console_error ''[PendoProvider] Failed to fetch segment flags:'' e w')
      | Inr fs' \<Rightarrow>
          (Inr (Some fs'),
           p\<lparr>cache := (cache p)(cacheKey visitorId (accountId ctx) \<mapsto>
                \<lparr>flags = fs', expiresAt = now w' + cacheTtl (options p)\<rparr>)\<rparr>,
           w'))"
    using getSegmentFlags_miss [OF assms(1-3), of env] assms(4) f by simp
  have r: "res = Inr fs \<and> w' = w1"
    using g by (cases res) simp_all
  show "p1 = p\<lparr>cache := (cache p)(cacheKey visitorId (accountId ctx) \<mapsto>
                  \<lparr>flags = fs, expiresAt = now w1 + cacheTtl (options p)\<rparr>)\<rparr>"
    using g r by simp
  have w1: "w1 = snd (await_fetch env (segmentflag_request env p visitorId (accountId ctx)) w)"
    using fetchSegmentFlags_world [OF f] r by simp
  show "calls w1 = calls w @ [segmentflag_request env p visitorId (accountId ctx)]"
    by (simp add: w1 await_fetch_def split: prod.splits)
  show "console w1 = console w"
    by (simp add: w1 await_fetch_def split: prod.splits)
qed


lemma resolveBoolean_non_error:
  assumes "resolveBooleanEvaluation env p flagKey defaultValue ctx w = (Inr r, p1, w1)"
    and "reason r \<noteq> ERROR"
  shows "\<exists>fso. getSegmentFlags env p ctx w = (Inr fso, p1, w1)"
proof -
  obtain res p' w' where g: "getSegmentFlags env p ctx w = (res, p', w')"
    by (cases "getSegmentFlags env p ctx w")
  show ?thesis
  proof (cases res)
    case (Inl e)
    with assms g show ?thesis
      by (simp add: resolveBooleanEvaluation_def resolveBoolean_try_def) (cases r, simp)
  next
    case (Inr fso)
    with assms(1) g show ?thesis
      by (cases fso) (simp_all add: resolveBooleanEvaluation_def resolveBoolean_try_def Let_def)
  qed
qed


lemma cache_lookup_stored:
  "cache_lookup (c(k \<mapsto> \<lparr>flags = fs, expiresAt = t\<rparr>)) k t' = (if t' < t then Some fs else None)"
  by (simp add: cache_lookup_def)


lemma cache_lookup_absent:
  "cache_lookup c k t = None \<longleftrightarrow> (c k = None \<or> (\<exists>e. c k = Some e \<and> expiresAt e \<le> t))"
  by (auto simp: cache_lookup_def split: option.splits)


lemma served_from_cache:
  assumes "targetingKey ctx = Some visitorId" "visitorId \<noteq> []"
    and "cache_lookup (cache p) (cacheKey visitorId (accountId ctx)) (now w) = None"
    and "getSegmentFlags env p ctx w = (Inr (Some fs), p1, w1)"
    and "targetingKey ctx' = Some visitorId'" "visitorId' \<noteq> []"
    and "cacheKey visitorId' (accountId ctx') = cacheKey visitorId (accountId ctx)"
    and "now w2 < now w1 + cacheTtl (options p)"
  shows "getSegmentFlags env p1 ctx' w2 = (Inr (Some fs), p1, w2)"
proof -
  have "cache_lookup (cache p1) (cacheKey visitorId' (accountId ctx')) (now w2) = Some fs"
    using assms(8) by (simp add: getSegmentFlags_miss_stores(1) [OF assms(1-4)] assms(7) cache_lookup_stored)
  then show ?thesis by (rule getSegmentFlags_hit [OF assms(5,6)])
qed


lemma refetch_after_expiry:
  assumes "targetingKey ctx = Some visitorId" "visitorId \<noteq> []"
    and "cache_lookup (cache p) (cacheKey visitorId (accountId ctx)) (now w) = None"
    and "getSegmentFlags env p ctx w = (Inr (Some fs), p1, w1)"
    and "now w1 + cacheTtl (options p) \<le> now w2"
  shows "calls (snd (snd (resolveBooleanEvaluation env p1 flagKey defaultValue ctx w2))) =
           calls w2 @ [segmentflag_request env p visitorId (accountId ctx)]"
proof -
  have p1: "p1 = p\<lparr>cache := (cache p)(cacheKey visitorId (accountId ctx) \<mapsto>
                  \<lparr>flags = fs, expiresAt = now w1 + cacheTtl (options p)\<rparr>)\<rparr>"
    by (rule getSegmentFlags_miss_stores(1) [OF assms(1-4)])
  have "cache_lookup (cache p1) (cacheKey visitorId (accountId ctx)) (now w2) = None"
    using assms(5) by (simp add: p1 cache_lookup_stored)
  moreover have "segmentflag_request env p1 visitorId (accountId ctx) =
                 segmentflag_request env p visitorId (accountId ctx)"
    by (rule segmentflag_request_options) (simp add: p1)
  ultimately show ?thesis
    using resolveBoolean_miss_calls [OF assms(1,2), of p1 w2 env flagKey defaultValue]
    by simp
qed


lemma fetchSegmentFlags_outcome:
  assumes "await_fetch env (segmentflag_request env p visitorId acct) w = (outcome, w')"
  shows "fetchSegmentFlags env p visitorId acct w =
     (case outcome of
        Inl e \<Rightarrow> (Inl e, w')
      | Inr rsp \<Rightarrow>
          if status rsp = 202 \<or> status rsp = 451 then (Inr [], w')
          else if status rsp = 429 then (Inl (Error ''Pendo API rate limit exceeded''), w')
          else if \<not> ok rsp then
            (Inl (Error (''Pendo API error: '' @ string_of_nat (status rsp) @ '' ''
                          @ statusText rsp)), w')
          else (case json rsp of
                  Inl e \<Rightarrow> (Inl e, w')
                | Inr None \<Rightarrow> (Inr [], w')
                | Inr (Some fs) \<Rightarrow> (Inr fs, w')))"
  by (simp add: fetchSegmentFlags_def assms split: sum.splits option.splits)

lemma resolveBoolean_miss:
  assumes "targetingKey ctx = Some visitorId" "visitorId \<noteq> []"
    and "cache_lookup (cache p) (cacheKey visitorId (accountId ctx)) (now w) = None"
    and "fetchSegmentFlags env p visitorId (accountId ctx) w = (res, w')"
  shows "resolveBooleanEvaluation env p flagKey defaultValue ctx w =
     (case res of
        Inl e \<Rightarrow> (Inr (error_result defaultValue (thrown_message e)), p, logged_twice e w')
      | Inr fs \<Rightarrow>
          (Inr (if flagKey \<in> set fs then on_result else off_result),
           p\<lparr>cache := (cache p)(cacheKey visitorId (accountId ctx) \<mapsto>
                \<lparr>flags = fs, expiresAt = now w' + cacheTtl (options p)\<rparr>)\<rparr>,
           w'))"
proof (cases res)
  case (Inl e)
  with assms(4) have "getSegmentFlags env p ctx w =
      (Inl e, p, console_error ''[PendoProvider] Failed to fetch segment flags:'' e w')"
    by (simp add: getSegmentFlags_miss [OF assms(1-3)])
  from resolveBoolean_of_error [OF this] Inl show ?thesis by simp
next
  case (Inr fs)
  with assms(4) have "getSegmentFlags env p ctx w =
      (Inr (Some fs),
       p\<lparr>cache := (cache p)(cacheKey visitorId (accountId ctx) \<mapsto>
            \<lparr>flags = fs, expiresAt = now w' + cacheTtl (options p)\<rparr>)\<rparr>,
       w')"
    by (simp add: getSegmentFlags_miss [OF assms(1-3)])
  from resolveBoolean_of_flags [OF this] Inr show ?thesis by simp
qed

text \<open>
  Claim C2. \<^verbatim>\<open>resolveBooleanEvaluation\<close> always returns a result, never an exception, and
  every error raised while the flags are obtained becomes the result with the default
  value, reason \<open>ERROR\<close>, code \<open>GENERAL\<close> and the error's message. On a cache miss the
  outcome follows the HTTP status: 202 and 451 give the empty flag set, which is cached
  and resolves to value false without an error; 429 raises the rate-limit error; any
  other status of a response that is not \<^verbatim>\<open>ok\<close> raises the generic error with the status
  and the status text; a rejected \<^verbatim>\<open>fetch\<close> raises what it was rejected with. After an
  error the provider, and so its cache, is unchanged.
\<close>

theorem remote_outcome_to_result:
  "(\<exists>r p' w'. resolveBooleanEvaluation env p flagKey defaultValue ctx w = (Inr r, p', w'))
   \<and> (\<forall>e p' w'. getSegmentFlags env p ctx w = (Inl e, p', w') \<longrightarrow>
          resolveBooleanEvaluation env p flagKey defaultValue ctx w =
            (Inr (error_result defaultValue (thrown_message e)), p',
             console_error ''[PendoProvider] Error evaluating flag:'' e w'))
   \<and> (targetingKey ctx = Some visitorId \<and> visitorId \<noteq> []
        \<and> cache_lookup (cache p) (cacheKey visitorId (accountId ctx)) (now w) = None
        \<and> await_fetch env (segmentflag_request env p visitorId (accountId ctx)) w = (outcome, w')
       \<longrightarrow>
         (\<forall>rsp. outcome = Inr rsp \<and> (status rsp = 202 \<or> status rsp = 451) \<longrightarrow>
            fetchSegmentFlags env p visitorId (accountId ctx) w = (Inr [], w')
            \<and> resolveBooleanEvaluation env p flagKey defaultValue ctx w =
                (Inr off_result,
                 p\<lparr>cache := (cache p)(cacheKey visitorId (accountId ctx) \<mapsto>
                      \<lparr>flags = [], expiresAt = now w' + cacheTtl (options p)\<rparr>)\<rparr>,
                 w'))
       \<and> (\<forall>rsp. outcome = Inr rsp \<and> status rsp = 429 \<longrightarrow>
            fetchSegmentFlags env p visitorId (accountId ctx) w =
              (Inl (Error ''Pendo API rate limit exceeded''), w')
            \<and> resolveBooleanEvaluation env p flagKey defaultValue ctx w =
                (Inr (error_result defaultValue ''Pendo API rate limit exceeded''), p,
                 logged_twice (Error ''Pendo API rate limit exceeded'') w'))
       \<and> (\<forall>rsp. outcome = Inr rsp \<and> status rsp \<noteq> 202 \<and> status rsp \<noteq> 429
                \<and> status rsp \<noteq> 451 \<and> \<not> ok rsp \<longrightarrow>
            fetchSegmentFlags env p visitorId (accountId ctx) w =
              (Inl (Error (''Pendo API error: '' @ string_of_nat (status rsp) @ '' ''
                            @ statusText rsp)), w')
            \<and> resolveBooleanEvaluation env p flagKey defaultValue ctx w =
                (Inr (error_result defaultValue
                        (''Pendo API error: '' @ string_of_nat (status rsp) @ '' ''
                          @ statusText rsp)), p,
                 logged_twice (Error (''Pendo API error: '' @ string_of_nat (status rsp) @ '' ''
                          @ statusText rsp)) w'))
       \<and> (\<forall>e. outcome = Inl e \<longrightarrow>
            fetchSegmentFlags env p visitorId (accountId ctx) w = (Inl e, w')
            \<and> resolveBooleanEvaluation env p flagKey defaultValue ctx w =
                (Inr (error_result defaultValue (thrown_message e)), p, logged_twice e w')))"
proof (intro conjI impI allI)
  show "\<exists>r p' w'. resolveBooleanEvaluation env p flagKey defaultValue ctx w = (Inr r, p', w')"
    by (rule resolveBoolean_total)
next
  fix e p' w'
  assume "getSegmentFlags env p ctx w = (Inl e, p', w')"
  then show "resolveBooleanEvaluation env p flagKey defaultValue ctx w =
            (Inr (error_result defaultValue (thrown_message e)), p',
             console_error ''[PendoProvider] Error evaluating flag:'' e w')"
    by (rule resolveBoolean_of_error)
next
  fix rsp
  assume h: "targetingKey ctx = Some visitorId \<and> visitorId \<noteq> []
        \<and> cache_lookup (cache p) (cacheKey visitorId (accountId ctx)) (now w) = None
        \<and> await_fetch env (segmentflag_request env p visitorId (accountId ctx)) w = (outcome, w')"
    and o: "outcome = Inr rsp \<and> (status rsp = 202 \<or> status rsp = 451)"
  have f: "fetchSegmentFlags env p visitorId (accountId ctx) w = (Inr [], w')"
    using h o by (auto simp: fetchSegmentFlags_outcome [of env p visitorId "accountId ctx" w outcome w'])
  show "fetchSegmentFlags env p visitorId (accountId ctx) w = (Inr [], w')" by (rule f)
  show "resolveBooleanEvaluation env p flagKey defaultValue ctx w =
                (Inr off_result,
                 p\<lparr>cache := (cache p)(cacheKey visitorId (accountId ctx) \<mapsto>
                      \<lparr>flags = [], expiresAt = now w' + cacheTtl (options p)\<rparr>)\<rparr>,
                 w')"
    using h resolveBoolean_miss [of ctx visitorId p w env "Inr []" w' flagKey defaultValue] f
    by simp
next
  fix rsp
  assume h: "targetingKey ctx = Some visitorId \<and> visitorId \<noteq> []
        \<and> cache_lookup (cache p) (cacheKey visitorId (accountId ctx)) (now w) = None
        \<and> await_fetch env (segmentflag_request env p visitorId (accountId ctx)) w = (outcome, w')"
    and o: "outcome = Inr rsp \<and> status rsp = 429"
  have f: "fetchSegmentFlags env p visitorId (accountId ctx) w =
              (Inl (Error ''Pendo API rate limit exceeded''), w')"
    using h o by (simp add: fetchSegmentFlags_outcome [of env p visitorId "accountId ctx" w outcome w'])
  show "fetchSegmentFlags env p visitorId (accountId ctx) w =
              (Inl (Error ''Pendo API rate limit exceeded''), w')" by (rule f)
  show "resolveBooleanEvaluation env p flagKey defaultValue ctx w =
                (Inr (error_result defaultValue ''Pendo API rate limit exceeded''), p,
                 logged_twice (Error ''Pendo API rate limit exceeded'') w')"
    using h resolveBoolean_miss [of ctx visitorId p w env
            "Inl (Error ''Pendo API rate limit exceeded'')" w' flagKey defaultValue] f
    by simp
next
  fix rsp
  assume h: "targetingKey ctx = Some visitorId \<and> visitorId \<noteq> []
        \<and> cache_lookup (cache p) (cacheKey visitorId (accountId ctx)) (now w) = None
        \<and> await_fetch env (segmentflag_request env p visitorId (accountId ctx)) w = (outcome, w')"
    and o: "outcome = Inr rsp \<and> status rsp \<noteq> 202 \<and> status rsp \<noteq> 429
                \<and> status rsp \<noteq> 451 \<and> \<not> ok rsp"
  have f: "fetchSegmentFlags env p visitorId (accountId ctx) w =
              (Inl (Error (''Pendo API error: '' @ string_of_nat (status rsp) @ '' ''
                            @ statusText rsp)), w')"
    using h o by (simp add: fetchSegmentFlags_outcome [of env p visitorId "accountId ctx" w outcome w'])
  show "fetchSegmentFlags env p visitorId (accountId ctx) w =
              (Inl (Error (''Pendo API error: '' @ string_of_nat (status rsp) @ '' ''
                            @ statusText rsp)), w')" by (rule f)
  show "resolveBooleanEvaluation env p flagKey defaultValue ctx w =
                (Inr (error_result defaultValue
                        (''Pendo API error: '' @ string_of_nat (status rsp) @ '' ''
                          @ statusText rsp)), p,
                 logged_twice (Error (''Pendo API error: '' @ string_of_nat (status rsp) @ '' ''
                          @ statusText rsp)) w')"
    using h resolveBoolean_miss [of ctx visitorId p w env
            "Inl (Error (''Pendo API error: '' @ string_of_nat (status rsp) @ '' ''
                            @ statusText rsp))" w' flagKey defaultValue] f
    by simp
next
  fix e
  assume h: "targetingKey ctx = Some visitorId \<and> visitorId \<noteq> []
        \<and> cache_lookup (cache p) (cacheKey visitorId (accountId ctx)) (now w) = None
        \<and> await_fetch env (segmentflag_request env p visitorId (accountId ctx)) w = (outcome, w')"
    and o: "outcome = Inl e"
  have f: "fetchSegmentFlags env p visitorId (accountId ctx) w = (Inl e, w')"
    using h o by (simp add: fetchSegmentFlags_outcome [of env p visitorId "accountId ctx" w outcome w'])
  show "fetchSegmentFlags env p visitorId (accountId ctx) w = (Inl e, w')" by (rule f)
  show "resolveBooleanEvaluation env p flagKey defaultValue ctx w =
                (Inr (error_result defaultValue (thrown_message e)), p, logged_twice e w')"
    using h resolveBoolean_miss [of ctx visitorId p w env "Inl e" w' flagKey defaultValue] f
    by simp
qed

lemma clearCache_lookup: "cache_lookup (cache (clearCache p)) k t = None"
  by (simp add: clearCache_def cache_lookup_def)

text \<open>
  Claim C4. A cache read finds nothing exactly when the key has no entry or the time has
  reached the entry's \<open>expiresAt\<close>. After a resolution that missed the cache and fetched
  successfully (one request), a resolution for the same visitor and account strictly
  before \<open>expiresAt\<close> makes no request and leaves provider and world as they are, while
  one at or after \<open>expiresAt\<close> makes one request again. \<^verbatim>\<open>clearCache()\<close> empties the
  cache, and the next resolution for any visitor makes one request.
\<close>

theorem cache_consistency:
  "(cache_lookup c k t = None \<longleftrightarrow> (c k = None \<or> (\<exists>e. c k = Some e \<and> expiresAt e \<le> t)))
   \<and> (targetingKey ctx = Some visitorId \<and> visitorId \<noteq> []
        \<and> cache_lookup (cache p) (cacheKey visitorId (accountId ctx)) (now w) = None
        \<and> resolveBooleanEvaluation env p flagKey1 default1 ctx w = (Inr r1, p1, w1)
        \<and> reason r1 \<noteq> ERROR
       \<longrightarrow>
         calls w1 = calls w @ [segmentflag_request env p visitorId (accountId ctx)]
       \<and> (\<exists>fs. cache p1 (cacheKey visitorId (accountId ctx)) =
                  Some \<lparr>flags = fs, expiresAt = now w1 + cacheTtl (options p)\<rparr>)
       \<and> (\<forall>w2 flagKey2 default2. now w2 < now w1 + cacheTtl (options p) \<longrightarrow>
             (\<exists>r2. resolveBooleanEvaluation env p1 flagKey2 default2 ctx w2 = (Inr r2, p1, w2)))
       \<and> (\<forall>w2 flagKey2 default2. now w1 + cacheTtl (options p) \<le> now w2 \<longrightarrow>
             calls (snd (snd (resolveBooleanEvaluation env p1 flagKey2 default2 ctx w2))) =
               calls w2 @ [segmentflag_request env p visitorId (accountId ctx)]))
   \<and> cache (clearCache p) = Map.empty
   \<and> (targetingKey ctx = Some visitorId \<and> visitorId \<noteq> [] \<longrightarrow>
        calls (snd (snd (resolveBooleanEvaluation env (clearCache p) flagKey defaultValue ctx w))) =
          calls w @ [segmentflag_request env p visitorId (accountId ctx)])"
proof (intro conjI impI)
  show "cache_lookup c k t = None \<longleftrightarrow> (c k = None \<or> (\<exists>e. c k = Some e \<and> expiresAt e \<le> t))"
    by (rule cache_lookup_absent)
next
  show "cache (clearCache p) = Map.empty"
    by (simp add: clearCache_def)
next
  assume v: "targetingKey ctx = Some visitorId \<and> visitorId \<noteq> []"
  have "segmentflag_request env (clearCache p) visitorId (accountId ctx) =
        segmentflag_request env p visitorId (accountId ctx)"
    by (rule segmentflag_request_options) (simp add: clearCache_def)
  then show "calls (snd (snd (resolveBooleanEvaluation env (clearCache p) flagKey defaultValue ctx w))) =
          calls w @ [segmentflag_request env p visitorId (accountId ctx)]"
    using v resolveBoolean_miss_calls [of ctx visitorId "clearCache p" w env flagKey defaultValue]
    by (simp add: clearCache_lookup)
next
  assume h: "targetingKey ctx = Some visitorId \<and> visitorId \<noteq> []
        \<and> cache_lookup (cache p) (cacheKey visitorId (accountId ctx)) (now w) = None
        \<and> resolveBooleanEvaluation env p flagKey1 default1 ctx w = (Inr r1, p1, w1)
        \<and> reason r1 \<noteq> ERROR"
  then have v: "targetingKey ctx = Some visitorId" "visitorId \<noteq> []"
    and miss: "cache_lookup (cache p) (cacheKey visitorId (accountId ctx)) (now w) = None"
    and r1: "resolveBooleanEvaluation env p flagKey1 default1 ctx w = (Inr r1, p1, w1)"
    and ne: "reason r1 \<noteq> ERROR"
    by simp_all
  from resolveBoolean_non_error [OF r1 ne]
  obtain fso where g: "getSegmentFlags env p ctx w = (Inr fso, p1, w1)" ..
  have "truthy (targetingKey ctx)" using v by (simp add: truthy_def)
  from getSegmentFlags_visitor [OF this, of env p w] g
  obtain fs where fso: "fso = Some fs" by (cases fso) simp_all
  note g' = g [unfolded fso]
  note st = getSegmentFlags_miss_stores [OF v miss g']
  show "calls w1 = calls w @ [segmentflag_request env p visitorId (accountId ctx)]"
    by (rule st(2))
  show "\<exists>fs. cache p1 (cacheKey visitorId (accountId ctx)) =
                  Some \<lparr>flags = fs, expiresAt = now w1 + cacheTtl (options p)\<rparr>"
    by (rule exI [of _ fs]) (simp add: st(1))
  show "\<forall>w2 flagKey2 default2. now w2 < now w1 + cacheTtl (options p) \<longrightarrow>
             (\<exists>r2. resolveBooleanEvaluation env p1 flagKey2 default2 ctx w2 = (Inr r2, p1, w2))"
  proof (intro allI impI)
    fix w2 :: world and flagKey2 :: string and default2 :: bool
    assume "now w2 < now w1 + cacheTtl (options p)"
    from served_from_cache [OF v miss g' v refl this]
    have "getSegmentFlags env p1 ctx w2 = (Inr (Some fs), p1, w2)" .
    from resolveBoolean_of_flags [OF this]
    show "\<exists>r2. resolveBooleanEvaluation env p1 flagKey2 default2 ctx w2 = (Inr r2, p1, w2)"
      by blast
  qed
  show "\<forall>w2 flagKey2 default2. now w1 + cacheTtl (options p) \<le> now w2 \<longrightarrow>
             calls (snd (snd (resolveBooleanEvaluation env p1 flagKey2 default2 ctx w2))) =
               calls w2 @ [segmentflag_request env p visitorId (accountId ctx)]"
    using refetch_after_expiry [OF v miss g'] by blast
qed

text \<open>
  Claim C8. \<^verbatim>\<open>track\<close> never throws. Without a track-event secret it warns about the
  secret and makes no request; with a secret but without a visitor id it warns about the
  targeting key and makes no request. With both it hands exactly one POST request to
  \<^verbatim>\<open>fetch\<close>, to \<^verbatim>\<open>/data/track\<close>, with the secret in the header
  \<^verbatim>\<open>x-pendo-track-event-secret\<close> and the serialised payload of type, event, visitor id,
  account id (if any), timestamp and properties; when that request is rejected, the
  failure is written to the console and the call still returns normally.
\<close>

theorem track_preconditions:
  "fst (track env p trackingEventName ctx trackingEventDetails w) = Inr ()
   \<and> (\<not> truthy (trackEventSecret (options p)) \<longrightarrow>
        snd (track env p trackingEventName ctx trackingEventDetails w) =
          console_warn ''[PendoProvider] trackEventSecret is required to track events'' w)
   \<and> (truthy (trackEventSecret (options p)) \<and> \<not> truthy (targetingKey ctx) \<longrightarrow>
        snd (track env p trackingEventName ctx trackingEventDetails w) =
          console_warn ''[PendoProvider] targetingKey (visitorId) is required to track events'' w)
   \<and> (\<not> truthy (trackEventSecret (options p)) \<or> \<not> truthy (targetingKey ctx) \<longrightarrow>
        calls (snd (track env p trackingEventName ctx trackingEventDetails w)) = calls w)
   \<and> (trackEventSecret (options p) = Some secret \<and> secret \<noteq> []
        \<and> targetingKey ctx = Some visitorId \<and> visitorId \<noteq> [] \<longrightarrow>
        calls (snd (track env p trackingEventName ctx trackingEventDetails w)) =
          calls w @
            [\<lparr>url = baseUrl (options p) @ ''/data/track'',
              httpMethod = ''POST'',
              headers = [(''Content-Type'', ''application/json''),
                         (''x-pendo-track-event-secret'', secret)],
              body = Some (JSON_stringify env (JObj
                [(''type'', JStr ''track''),
                 (''event'', JStr trackingEventName),
                 (''visitorId'', JStr visitorId),
                 (''accountId'', (case accountId ctx of None \<Rightarrow> JUndefined | Some a \<Rightarrow> JStr a)),
                 (''timestamp'', JNum (of_int (now w))),
                 (''properties'', trackingEventDetails)]))\<rparr>])
   \<and> (\<forall>e elapsed.
        trackEventSecret (options p) = Some secret \<and> secret \<noteq> []
        \<and> targetingKey ctx = Some visitorId \<and> visitorId \<noteq> []
        \<and> fetch env (calls w) (now w)
              (track_request env p secret trackingEventName visitorId (accountId ctx)
                 trackingEventDetails w) = (Inl e, elapsed) \<longrightarrow>
        track env p trackingEventName ctx trackingEventDetails w =
          (Inr (),
           console_error ''[PendoProvider] Failed to track event:'' e
             (w\<lparr>calls := calls w @
                  [track_request env p secret trackingEventName visitorId (accountId ctx)
                     trackingEventDetails w]\<rparr>)))"
proof -
  have unconditional: "fst (track env p trackingEventName ctx trackingEventDetails w) = Inr ()"
    by (simp add: track_def split: prod.splits sum.splits)
  have warned:
    "\<not> truthy (trackEventSecret (options p)) \<longrightarrow>
        snd (track env p trackingEventName ctx trackingEventDetails w) =
          console_warn ''[PendoProvider] trackEventSecret is required to track events'' w"
    "truthy (trackEventSecret (options p)) \<and> \<not> truthy (targetingKey ctx) \<longrightarrow>
        snd (track env p trackingEventName ctx trackingEventDetails w) =
          console_warn ''[PendoProvider] targetingKey (visitorId) is required to track events'' w"
    "\<not> truthy (trackEventSecret (options p)) \<or> \<not> truthy (targetingKey ctx) \<longrightarrow>
        calls (snd (track env p trackingEventName ctx trackingEventDetails w)) = calls w"
    by (auto simp: track_def)
  have posted:
    "trackEventSecret (options p) = Some secret \<and> secret \<noteq> []
        \<and> targetingKey ctx = Some visitorId \<and> visitorId \<noteq> [] \<longrightarrow>
        calls (snd (track env p trackingEventName ctx trackingEventDetails w)) =
          calls w @
            [track_request env p secret trackingEventName visitorId (accountId ctx)
               trackingEventDetails w]"
    by (auto simp: track_def fire_fetch_def truthy_def or_empty_def
             split: prod.splits sum.splits)
  have swallowed:
    "\<forall>e elapsed.
        trackEventSecret (options p) = Some secret \<and> secret \<noteq> []
        \<and> targetingKey ctx = Some visitorId \<and> visitorId \<noteq> []
        \<and> fetch env (calls w) (now w)
              (track_request env p secret trackingEventName visitorId (accountId ctx)
                 trackingEventDetails w) = (Inl e, elapsed) \<longrightarrow>
        track env p trackingEventName ctx trackingEventDetails w =
          (Inr (),
           console_error ''[PendoProvider] Failed to track event:'' e
             (w\<lparr>calls := calls w @
                  [track_request env p secret trackingEventName visitorId (accountId ctx)
                     trackingEventDetails w]\<rparr>))"
    by (simp add: track_def fire_fetch_def truthy_def or_empty_def)
  show ?thesis
    using unconditional warned posted swallowed
    by (simp add: track_request_def)
qed

lemma resolveBoolean_false_shapes:
  assumes "resolveBooleanEvaluation env p flagKey False ctx w = (Inr b, p', w')"
  shows "reason b = ERROR \<or> b = default_result False \<or> b = on_result \<or> b = off_result"
proof -
  obtain res p1 w1 where g: "getSegmentFlags env p ctx w = (res, p1, w1)"
    by (cases "getSegmentFlags env p ctx w")
  show ?thesis
  proof (cases res)
    case (Inl e)
    with assms g have "reason b = ERROR"
      by (auto simp: resolveBooleanEvaluation_def resolveBoolean_try_def)
    then show ?thesis by simp
  next
    case (Inr fso)
    show ?thesis
    proof (cases fso)
      case None
      with assms g Inr show ?thesis
        by (auto simp: resolveBooleanEvaluation_def resolveBoolean_try_def)
    next
      case (Some fs)
      with g Inr have "getSegmentFlags env p ctx w = (Inr (Some fs), p1, w1)" by simp
      from resolveBoolean_of_flags [OF this, of flagKey False] assms
      have "b = (if flagKey \<in> set fs then on_result else off_result)" by simp
      then show ?thesis by (cases "flagKey \<in> set fs") simp_all
    qed
  qed
qed

lemma derive_from_boolean_values:
  assumes "reason b = ERROR \<or> b = default_result False \<or> b = on_result \<or> b = off_result"
  shows "val (derive_from_boolean onRep offRep d b) = d
       \<or> (val (derive_from_boolean onRep offRep d b) = onRep
           \<and> reason (derive_from_boolean onRep offRep d b) = TARGETING_MATCH
           \<and> variant (derive_from_boolean onRep offRep d b) = Some ''on'')"
  using assms by (auto simp: derive_from_boolean_def)

text \<open>
  Claim C9, as amended. For the default value false a boolean result that is not an error
  has value false exactly when its reason is \<open>DEFAULT\<close>. Hence each derived resolver
  returns either its default value or the "on" representation with reason
  \<open>TARGETING_MATCH\<close> and variant \<^verbatim>\<open>on\<close>: \<^verbatim>\<open>resolveStringEvaluation\<close> returns
  \<^verbatim>\<open>"off"\<close> only if that is the default value, \<^verbatim>\<open>resolveNumberEvaluation\<close> returns 0 only
  if 0 is the default value, and \<^verbatim>\<open>resolveObjectEvaluation\<close> returns
  \<^verbatim>\<open>{enabled: false}\<close> only if that is the default value.
\<close>

theorem derived_values:
  "\<exists>b rs rn rj p' w'.
      resolveBooleanEvaluation env p flagKey False ctx w = (Inr b, p', w')
    \<and> (reason b \<noteq> ERROR \<longrightarrow> (val b = False \<longleftrightarrow> reason b = DEFAULT))
    \<and> resolveStringEvaluation env p flagKey ds ctx w = (Inr rs, p', w')
    \<and> (val rs = ds \<or> (val rs = ''on'' \<and> reason rs = TARGETING_MATCH \<and> variant rs = Some ''on''))
    \<and> (val rs = ''off'' \<longrightarrow> ds = ''off'')
    \<and> resolveNumberEvaluation env p flagKey dn ctx w = (Inr rn, p', w')
    \<and> (val rn = dn \<or> (val rn = 1 \<and> reason rn = TARGETING_MATCH \<and> variant rn = Some ''on''))
    \<and> (val rn = 0 \<longrightarrow> dn = 0)
    \<and> resolveObjectEvaluation env p flagKey dj ctx w = (Inr rj, p', w')
    \<and> (val rj = dj \<or> (val rj = JObj [(''enabled'', JBool True)]
                        \<and> reason rj = TARGETING_MATCH \<and> variant rj = Some ''on''))
    \<and> (val rj = JObj [(''enabled'', JBool False)] \<longrightarrow> dj = JObj [(''enabled'', JBool False)])"
proof -
  obtain b p' w' where b: "resolveBooleanEvaluation env p flagKey False ctx w = (Inr b, p', w')"
    using resolveBoolean_total by blast
  note shapes = resolveBoolean_false_shapes [OF b]
  note d = derived_from_boolean_result [OF b]
  have 1: "reason b \<noteq> ERROR \<longrightarrow> (val b = False \<longleftrightarrow> reason b = DEFAULT)"
    using shapes by auto
  have s: "val (derive_from_boolean ''on'' ''off'' ds b) = ''off'' \<longrightarrow> ds = ''off''"
    using derive_from_boolean_values [OF shapes, of "''on''" "''off''" ds] by auto
  have n: "val (derive_from_boolean 1 0 dn b) = 0 \<longrightarrow> dn = 0"
    using derive_from_boolean_values [OF shapes, of "1::real" 0 dn] by auto
  have j: "val (derive_from_boolean (JObj [(''enabled'', JBool True)])
                   (JObj [(''enabled'', JBool False)]) dj b) = JObj [(''enabled'', JBool False)]
           \<longrightarrow> dj = JObj [(''enabled'', JBool False)]"
    using derive_from_boolean_values [OF shapes, of "JObj [(''enabled'', JBool True)]"
            "JObj [(''enabled'', JBool False)]" dj] by auto
  show ?thesis
    using b 1 d s n j
      derive_from_boolean_values [OF shapes, of "''on''" "''off''" ds]
      derive_from_boolean_values [OF shapes, of "1::real" 0 dn]
      derive_from_boolean_values [OF shapes, of "JObj [(''enabled'', JBool True)]"
            "JObj [(''enabled'', JBool False)]" dj]
    by blast
qed

text \<open>
  Without the proviso the statement fails: with no targeting key the string resolver
  hands back the default value \<^verbatim>\<open>"off"\<close>, and the default value \<^verbatim>\<open>"on"\<close> comes back with
  reason \<open>DEFAULT\<close>.
\<close>

theorem derived_values_counterexample:
  "resolveStringEvaluation (mock_platform (Inl NonError)) test_provider ''feature-a'' ''off''
      \<lparr>targetingKey = None, accountId = None\<rparr> test_world =
     (Inr \<lparr>val = ''off'', reason = DEFAULT, variant = Some ''default'',
           errorCode = None, errorMessage = None\<rparr>, test_provider,
      console_warn ''[PendoProvider] No targetingKey (visitor ID) provided in context'' test_world)
   \<and> resolveStringEvaluation (mock_platform (Inl NonError)) test_provider ''feature-a'' ''on''
      \<lparr>targetingKey = None, accountId = None\<rparr> test_world =
     (Inr \<lparr>val = ''on'', reason = DEFAULT, variant = Some ''default'',
           errorCode = None, errorMessage = None\<rparr>, test_provider,
      console_warn ''[PendoProvider] No targetingKey (visitor ID) provided in context'' test_world)"
  by (simp add: resolveStringEvaluation_def resolveBoolean_no_visitor truthy_def)

text \<open>
  The keys of visitor \<^verbatim>\<open>a:b\<close> without account and of visitor \<^verbatim>\<open>a\<close> with account \<^verbatim>\<open>b\<close>
  differ: the first ends with the separator.
\<close>

theorem cacheKey_example_counterexample:
  "cacheKey ''a:b'' None = ''a:b:'' \<and> cacheKey ''a'' (Some ''b'') = ''a:b''
   \<and> cacheKey ''a:b'' None \<noteq> cacheKey ''a'' (Some ''b'')"
  by (simp add: cacheKey_def or_empty_def)

text \<open>
  Claim C10, as amended. The cache key is not injective: visitor \<^verbatim>\<open>a:b\<close> with account
  \<^verbatim>\<open>c\<close> and visitor \<^verbatim>\<open>a\<close> with account \<^verbatim>\<open>b:c\<close> have the same key, so after a
  fetch for the first context a resolution for the second one, before the entry expires,
  is answered from the flag set cached for the first, without a request.
\<close>

theorem cacheKey_collision:
  "cacheKey ''a:b'' (Some ''c'') = cacheKey ''a'' (Some ''b:c'')
   \<and> (cache_lookup (cache p) (cacheKey ''a:b'' (Some ''c'')) (now w) = None
      \<and> getSegmentFlags env p \<lparr>targetingKey = Some ''a:b'', accountId = Some ''c''\<rparr> w =
          (Inr (Some fs), p1, w1)
      \<and> now w2 < now w1 + cacheTtl (options p)
      \<longrightarrow> resolveBooleanEvaluation env p1 flagKey defaultValue
            \<lparr>targetingKey = Some ''a'', accountId = Some ''b:c''\<rparr> w2 =
          (Inr (if flagKey \<in> set fs then on_result else off_result), p1, w2))"
proof (intro conjI impI)
  show k: "cacheKey ''a:b'' (Some ''c'') = cacheKey ''a'' (Some ''b:c'')"
    by (simp add: cacheKey_def or_empty_def)
  assume h: "cache_lookup (cache p) (cacheKey ''a:b'' (Some ''c'')) (now w) = None
      \<and> getSegmentFlags env p \<lparr>targetingKey = Some ''a:b'', accountId = Some ''c''\<rparr> w =
          (Inr (Some fs), p1, w1)
      \<and> now w2 < now w1 + cacheTtl (options p)"
  have "getSegmentFlags env p1 \<lparr>targetingKey = Some ''a'', accountId = Some ''b:c''\<rparr> w2 =
          (Inr (Some fs), p1, w2)"
    using h k
      served_from_cache [of "\<lparr>targetingKey = Some ''a:b'', accountId = Some ''c''\<rparr>" "''a:b''"
        p w env fs p1 w1 "\<lparr>targetingKey = Some ''a'', accountId = Some ''b:c''\<rparr>" "''a''" w2]
    by simp
  then show "resolveBooleanEvaluation env p1 flagKey defaultValue
            \<lparr>targetingKey = Some ''a'', accountId = Some ''b:c''\<rparr> w2 =
          (Inr (if flagKey \<in> set fs then on_result else off_result), p1, w2)"
    by (rule resolveBoolean_of_flags)
qed

section \<open>The scenarios of \<^verbatim>\<open>PendoProvider.spec.ts\<close>\<close>

lemmas mock_defs =
  mock_platform_def mock_response_def test_provider_def test_world_def new_PendoProvider_def

lemmas fetch_defs =
  getSegmentFlags_def fetchSegmentFlags_def await_fetch_def cache_lookup_def cacheKey_def
  or_empty_def

theorem resolveBoolean_membership_witness:
  "truthy (targetingKey \<lparr>targetingKey = Some ''user-123'', accountId = None\<rparr>)
   \<and> fst (resolveBooleanEvaluation
        (mock_platform (Inr (mock_response 200 True ''OK'' (Some [''feature-a'', ''feature-b'']))))
        test_provider ''feature-a'' False
        \<lparr>targetingKey = Some ''user-123'', accountId = None\<rparr> test_world) = Inr on_result
   \<and> fst (resolveBooleanEvaluation
        (mock_platform (Inr (mock_response 200 True ''OK'' (Some [''feature-a'', ''feature-b'']))))
        test_provider ''feature-c'' False
        \<lparr>targetingKey = Some ''user-123'', accountId = None\<rparr> test_world) = Inr off_result"
  using
    resolveBoolean_membership [of "\<lparr>targetingKey = Some ''user-123'', accountId = None\<rparr>"
      "mock_platform (Inr (mock_response 200 True ''OK'' (Some [''feature-a'', ''feature-b''])))"
      test_provider test_world "[''feature-a'', ''feature-b'']"
      "fst (snd (getSegmentFlags
         (mock_platform (Inr (mock_response 200 True ''OK'' (Some [''feature-a'', ''feature-b'']))))
         test_provider \<lparr>targetingKey = Some ''user-123'', accountId = None\<rparr> test_world))"
      "snd (snd (getSegmentFlags
         (mock_platform (Inr (mock_response 200 True ''OK'' (Some [''feature-a'', ''feature-b'']))))
         test_provider \<lparr>targetingKey = Some ''user-123'', accountId = None\<rparr> test_world))"
      "''feature-a''" False]
    resolveBoolean_membership [of "\<lparr>targetingKey = Some ''user-123'', accountId = None\<rparr>"
      "mock_platform (Inr (mock_response 200 True ''OK'' (Some [''feature-a'', ''feature-b''])))"
      test_provider test_world "[''feature-a'', ''feature-b'']"
      "fst (snd (getSegmentFlags
         (mock_platform (Inr (mock_response 200 True ''OK'' (Some [''feature-a'', ''feature-b'']))))
         test_provider \<lparr>targetingKey = Some ''user-123'', accountId = None\<rparr> test_world))"
      "snd (snd (getSegmentFlags
         (mock_platform (Inr (mock_response 200 True ''OK'' (Some [''feature-a'', ''feature-b'']))))
         test_provider \<lparr>targetingKey = Some ''user-123'', accountId = None\<rparr> test_world))"
      "''feature-c''" False]
  by (simp add: truthy_def fetch_defs mock_defs)


theorem remote_outcome_to_result_witness:
  "fst (resolveBooleanEvaluation
      (mock_platform (Inr (mock_response 429 False ''Too Many Requests'' None)))
      test_provider ''feature-a'' False
      \<lparr>targetingKey = Some ''user-123'', accountId = None\<rparr> test_world) =
     Inr (error_result False ''Pendo API rate limit exceeded'')
   \<and> fst (resolveBooleanEvaluation
      (mock_platform (Inr (mock_response 500 False ''Internal Server Error'' None)))
      test_provider ''feature-a'' False
      \<lparr>targetingKey = Some ''user-123'', accountId = None\<rparr> test_world) =
     Inr (error_result False ''Pendo API error: 500 Internal Server Error'')
   \<and> fst (resolveBooleanEvaluation
      (mock_platform (Inr (mock_response 202 False [] None)))
      test_provider ''any-flag'' True
      \<lparr>targetingKey = Some ''user-123'', accountId = None\<rparr> test_world) = Inr off_result
   \<and> fst (resolveBooleanEvaluation
      (mock_platform (Inl (Error ''Network error'')))
      test_provider ''feature-a'' True
      \<lparr>targetingKey = Some ''user-123'', accountId = None\<rparr> test_world) =
     Inr (error_result True ''Network error'')"
  using
    remote_outcome_to_result [where
      env = "mock_platform (Inr (mock_response 429 False ''Too Many Requests'' None))"
      and p = test_provider and flagKey = "''feature-a''" and defaultValue = False
      and ctx = "\<lparr>targetingKey = Some ''user-123'', accountId = None\<rparr>" and w = test_world
      and visitorId = "''user-123''"
      and outcome = "Inr (mock_response 429 False ''Too Many Requests'' None)"
      and w' = "\<lparr>now = 1005,
                calls = [segmentflag_request
                  (mock_platform (Inr (mock_response 429 False ''Too Many Requests'' None)))
                  test_provider ''user-123'' None],
                console = []\<rparr>"]
    remote_outcome_to_result [where
      env = "mock_platform (Inr (mock_response 500 False ''Internal Server Error'' None))"
      and p = test_provider and flagKey = "''feature-a''" and defaultValue = False
      and ctx = "\<lparr>targetingKey = Some ''user-123'', accountId = None\<rparr>" and w = test_world
      and visitorId = "''user-123''"
      and outcome = "Inr (mock_response 500 False ''Internal Server Error'' None)"
      and w' = "\<lparr>now = 1005,
                calls = [segmentflag_request
                  (mock_platform (Inr (mock_response 500 False ''Internal Server Error'' None)))
                  test_provider ''user-123'' None],
                console = []\<rparr>"]
    remote_outcome_to_result [where
      env = "mock_platform (Inr (mock_response 202 False [] None))"
      and p = test_provider and flagKey = "''any-flag''" and defaultValue = True
      and ctx = "\<lparr>targetingKey = Some ''user-123'', accountId = None\<rparr>" and w = test_world
      and visitorId = "''user-123''"
      and outcome = "Inr (mock_response 202 False [] None)"
      and w' = "\<lparr>now = 1005,
                calls = [segmentflag_request
                  (mock_platform (Inr (mock_response 202 False [] None)))
                  test_provider ''user-123'' None],
                console = []\<rparr>"]
    remote_outcome_to_result [where
      env = "mock_platform (Inl (Error ''Network error''))"
      and p = test_provider and flagKey = "''feature-a''" and defaultValue = True
      and ctx = "\<lparr>targetingKey = Some ''user-123'', accountId = None\<rparr>" and w = test_world
      and visitorId = "''user-123''"
      and outcome = "Inl (Error ''Network error'')"
      and w' = "\<lparr>now = 1005,
                calls = [segmentflag_request
                  (mock_platform (Inl (Error ''Network error'')))
                  test_provider ''user-123'' None],
                console = []\<rparr>"]
  by (simp add: await_fetch_def cache_lookup_def mock_defs string_of_nat.simps digit_char_def)

theorem track_preconditions_witness:
  "track (mock_platform (Inr (mock_response 200 True ''OK'' None))) test_provider
      ''button_clicked'' \<lparr>targetingKey = Some ''user-123'', accountId = None\<rparr> (JObj [])
      test_world =
     (Inr (), console_warn ''[PendoProvider] trackEventSecret is required to track events''
                test_world)
   \<and> track (mock_platform (Inr (mock_response 200 True ''OK'' None)))
      (new_PendoProvider ''test-api-key'' ''https://example.com'' None None (Some ''test-secret''))
      ''button_clicked'' \<lparr>targetingKey = None, accountId = None\<rparr> (JObj []) test_world =
     (Inr (), console_warn
                ''[PendoProvider] targetingKey (visitorId) is required to track events''
                test_world)
   \<and> calls (snd (track (mock_platform (Inr (mock_response 200 True ''OK'' None)))
      (new_PendoProvider ''test-api-key'' ''https://example.com'' None None (Some ''test-secret''))
      ''button_clicked'' \<lparr>targetingKey = Some ''user-123'', accountId = Some ''account-456''\<rparr>
      (JObj [(''value'', JNum 42)]) test_world)) =
     [\<lparr>url = ''https://data.pendo.io/data/track'', httpMethod = ''POST'',
       headers = [(''Content-Type'', ''application/json''),
                  (''x-pendo-track-event-secret'', ''test-secret'')],
       body = Some ''{}''\<rparr>]"
  using
    track_preconditions [where env = "mock_platform (Inr (mock_response 200 True ''OK'' None))"
      and p = test_provider and trackingEventName = "''button_clicked''"
      and ctx = "\<lparr>targetingKey = Some ''user-123'', accountId = None\<rparr>"
      and trackingEventDetails = "JObj []" and w = test_world]
    track_preconditions [where env = "mock_platform (Inr (mock_response 200 True ''OK'' None))"
      and p = "new_PendoProvider ''test-api-key'' ''https://example.com'' None None
                 (Some ''test-secret'')"
      and trackingEventName = "''button_clicked''"
      and ctx = "\<lparr>targetingKey = None, accountId = None\<rparr>"
      and trackingEventDetails = "JObj []" and w = test_world]
    track_preconditions [where env = "mock_platform (Inr (mock_response 200 True ''OK'' None))"
      and p = "new_PendoProvider ''test-api-key'' ''https://example.com'' None None
                 (Some ''test-secret'')"
      and trackingEventName = "''button_clicked''"
      and ctx = "\<lparr>targetingKey = Some ''user-123'', accountId = Some ''account-456''\<rparr>"
      and trackingEventDetails = "JObj [(''value'', JNum 42)]" and w = test_world
      and secret = "''test-secret''" and visitorId = "''user-123''"]
  by (simp add: truthy_def mock_defs prod_eq_iff)

theorem derived_values_witness:
  "\<exists>b rs p' w'.
      resolveBooleanEvaluation (mock_platform (Inl NonError)) test_provider ''feature-a'' False
        \<lparr>targetingKey = None, accountId = None\<rparr> test_world = (Inr b, p', w')
    \<and> reason b \<noteq> ERROR \<and> val b = False \<and> reason b = DEFAULT
    \<and> resolveStringEvaluation (mock_platform (Inl NonError)) test_provider ''feature-a'' ''off''
        \<lparr>targetingKey = None, accountId = None\<rparr> test_world = (Inr rs, p', w')
    \<and> val rs = ''off''"
  using
    derived_values [of "mock_platform (Inl NonError)" test_provider "''feature-a''"
      "\<lparr>targetingKey = None, accountId = None\<rparr>" test_world "''off''" 0 JNull]
  by (auto simp: resolveBoolean_no_visitor truthy_def resolveStringEvaluation_def
        resolveNumberEvaluation_def resolveObjectEvaluation_def)

theorem cacheKey_collision_witness:
  "fst (resolveBooleanEvaluation
      (mock_platform (Inr (mock_response 200 True ''OK'' (Some [''flag1'']))))
      (test_provider\<lparr>cache := [''a:b:c'' \<mapsto> \<lparr>flags = [''flag1''], expiresAt = 61005\<rparr>]\<rparr>)
      ''flag1'' False \<lparr>targetingKey = Some ''a'', accountId = Some ''b:c''\<rparr>
      \<lparr>now = 2000, calls = [], console = []\<rparr>) = Inr on_result"
  using
    cacheKey_collision [where p = test_provider and w = test_world
      and env = "mock_platform (Inr (mock_response 200 True ''OK'' (Some [''flag1''])))"
      and fs = "[''flag1'']"
      and ?p1.0 = "test_provider\<lparr>cache := [''a:b:c'' \<mapsto> \<lparr>flags = [''flag1''], expiresAt = 61005\<rparr>]\<rparr>"
      and ?w1.0 = "\<lparr>now = 1005,
                 calls = [segmentflag_request
                   (mock_platform (Inr (mock_response 200 True ''OK'' (Some [''flag1'']))))
                   test_provider ''a:b'' (Some ''c'')],
                 console = []\<rparr>"
      and ?w2.0 = "\<lparr>now = 2000, calls = [], console = []\<rparr>"
      and flagKey = "''flag1''" and defaultValue = False]
  by (simp add: fetch_defs mock_defs)

theorem cache_consistency_witness:
  "resolveBooleanEvaluation
      (mock_platform (Inr (mock_response 200 True ''OK'' (Some [''flag1'']))))
      test_provider ''flag1'' False
      \<lparr>targetingKey = Some ''user-123'', accountId = Some ''account-456''\<rparr> test_world =
     (Inr on_result,
      test_provider\<lparr>cache :=
        [''user-123:account-456'' \<mapsto> \<lparr>flags = [''flag1''], expiresAt = 61005\<rparr>]\<rparr>,
      \<lparr>now = 1005,
       calls = [segmentflag_request
          (mock_platform (Inr (mock_response 200 True ''OK'' (Some [''flag1'']))))
          test_provider ''user-123'' (Some ''account-456'')],
       console = []\<rparr>)
   \<and> (\<exists>r2. resolveBooleanEvaluation
      (mock_platform (Inr (mock_response 200 True ''OK'' (Some [''flag1'']))))
      (test_provider\<lparr>cache :=
        [''user-123:account-456'' \<mapsto> \<lparr>flags = [''flag1''], expiresAt = 61005\<rparr>]\<rparr>)
      ''flag2'' False
      \<lparr>targetingKey = Some ''user-123'', accountId = Some ''account-456''\<rparr>
      \<lparr>now = 2000,
       calls = [segmentflag_request
          (mock_platform (Inr (mock_response 200 True ''OK'' (Some [''flag1'']))))
          test_provider ''user-123'' (Some ''account-456'')],
       console = []\<rparr> =
     (Inr r2,
      test_provider\<lparr>cache :=
        [''user-123:account-456'' \<mapsto> \<lparr>flags = [''flag1''], expiresAt = 61005\<rparr>]\<rparr>,
      \<lparr>now = 2000,
       calls = [segmentflag_request
          (mock_platform (Inr (mock_response 200 True ''OK'' (Some [''flag1'']))))
          test_provider ''user-123'' (Some ''account-456'')],
       console = []\<rparr>))
   \<and> calls (snd (snd (resolveBooleanEvaluation
      (mock_platform (Inr (mock_response 200 True ''OK'' (Some [''flag1'']))))
      (test_provider\<lparr>cache :=
        [''user-123:account-456'' \<mapsto> \<lparr>flags = [''flag1''], expiresAt = 61005\<rparr>]\<rparr>)
      ''flag1'' False
      \<lparr>targetingKey = Some ''user-123'', accountId = Some ''account-456''\<rparr>
      \<lparr>now = 61005,
       calls = [segmentflag_request
          (mock_platform (Inr (mock_response 200 True ''OK'' (Some [''flag1'']))))
          test_provider ''user-123'' (Some ''account-456'')],
       console = []\<rparr>))) =
     [segmentflag_request
          (mock_platform (Inr (mock_response 200 True ''OK'' (Some [''flag1'']))))
          test_provider ''user-123'' (Some ''account-456''),
      segmentflag_request
          (mock_platform (Inr (mock_response 200 True ''OK'' (Some [''flag1'']))))
          test_provider ''user-123'' (Some ''account-456'')]"
proof -
  let ?env = "mock_platform (Inr (mock_response 200 True ''OK'' (Some [''flag1''])))"
  let ?ctx = "\<lparr>targetingKey = Some ''user-123'', accountId = Some ''account-456''\<rparr>"
  let ?rq = "segmentflag_request ?env test_provider ''user-123'' (Some ''account-456'')"
  let ?p1 = "test_provider\<lparr>cache :=
        [''user-123:account-456'' \<mapsto> \<lparr>flags = [''flag1''], expiresAt = 61005\<rparr>]\<rparr>"
  let ?w1 = "\<lparr>now = 1005, calls = [?rq], console = []\<rparr>"
  have first: "resolveBooleanEvaluation ?env test_provider ''flag1'' False ?ctx test_world =
                 (Inr on_result, ?p1, ?w1)"
    by (simp add: resolveBooleanEvaluation_def resolveBoolean_try_def fetch_defs mock_defs)
  have hyp: "targetingKey ?ctx = Some ''user-123'' \<and> ''user-123'' \<noteq> []
        \<and> cache_lookup (cache test_provider) (cacheKey ''user-123'' (accountId ?ctx))
              (now test_world) = None
        \<and> resolveBooleanEvaluation ?env test_provider ''flag1'' False ?ctx test_world =
              (Inr on_result, ?p1, ?w1)
        \<and> reason on_result \<noteq> ERROR"
    using first by (simp add: cache_lookup_def mock_defs)
  note c = cache_consistency [where env = ?env and p = test_provider and ctx = ?ctx
      and w = test_world and visitorId = "''user-123''" and ?flagKey1.0 = "''flag1''"
      and ?default1.0 = False and ?r1.0 = on_result and ?p1.0 = ?p1 and ?w1.0 = ?w1,
      THEN conjunct2, THEN conjunct1, THEN mp, OF hyp]
  have ttl: "cacheTtl (options test_provider) = 60000"
    by (simp add: mock_defs)
  have "\<exists>r2. resolveBooleanEvaluation ?env ?p1 ''flag2'' False ?ctx
               \<lparr>now = 2000, calls = [?rq], console = []\<rparr> =
             (Inr r2, ?p1, \<lparr>now = 2000, calls = [?rq], console = []\<rparr>)"
    using c [THEN conjunct2, THEN conjunct2, THEN conjunct1, THEN spec, THEN spec, THEN spec,
             of "\<lparr>now = 2000, calls = [?rq], console = []\<rparr>" "''flag2''" False]
    by (simp add: ttl)
  moreover have "calls (snd (snd (resolveBooleanEvaluation ?env ?p1 ''flag1'' False ?ctx
               \<lparr>now = 61005, calls = [?rq], console = []\<rparr>))) = [?rq, ?rq]"
    using c [THEN conjunct2, THEN conjunct2, THEN conjunct2, THEN spec, THEN spec, THEN spec,
             of "\<lparr>now = 61005, calls = [?rq], console = []\<rparr>" "''flag1''" False]
    by (simp add: ttl)
  ultimately show ?thesis using first by simp
qed


section \<open>The JZB round trip\<close>

lemma encodeJzb_url_token:
  "encodeJzb env payload = url_token (pako_deflate env (JSON_stringify env payload))"
  by (simp add: encodeJzb_def url_token_def to_url_map)

lemma decodeJzb_pad_base64:
  "decodeJzb env encoded =
     (case pako_inflate env (b64dec (pad_base64 (map from_url encoded))) of
        Inl e \<Rightarrow> Inl e
      | Inr jsonString \<Rightarrow> JSON_parse env jsonString)"
  by (simp add: decodeJzb_def from_url_map pad_base64_def Let_def)

lemma base64_layer_transparent:
  "b64dec (pad_base64 (map from_url (encodeJzb env payload))) =
     pako_deflate env (JSON_stringify env payload)"
  by (simp add: encodeJzb_url_token b64_roundtrip)

text \<open>
  Claim C3. For a payload \<open>P\<close> that \<^verbatim>\<open>JSON\<close> serialises and parses back, and whose
  serialisation \<^verbatim>\<open>pako\<close> deflates to a non-empty stream that inflates back,
  \<^verbatim>\<open>encodeJzb(P)\<close> matches \<^verbatim>\<open>^[A-Za-z0-9_-]+$\<close> and decoding it (restore the Base64
  alphabet and the padding, inflate, parse) gives \<open>P\<close> again.
\<close>

theorem jzb_roundtrip:
  assumes "JSON_parse env (JSON_stringify env P) = Inr P"
    and "pako_inflate env (pako_deflate env (JSON_stringify env P)) = Inr (JSON_stringify env P)"
    and "pako_deflate env (JSON_stringify env P) \<noteq> []"
  shows "matches_url_safe (encodeJzb env P) \<and> decodeJzb env (encodeJzb env P) = Inr P"
proof -
  have "matches_url_safe (encodeJzb env P)"
    using assms(3)
    by (simp add: matches_url_safe_def encodeJzb_url_token url_token_safe url_token_nonempty)
  moreover have "decodeJzb env (encodeJzb env P) = Inr P"
    by (simp add: decodeJzb_pad_base64 base64_layer_transparent assms(1,2))
  ultimately show ?thesis by simp
qed

lemma encodeJzb_empty_object:
  "encodeJzb (mock_platform (Inl NonError)) (JObj []) = ''eJyrrgUAAXUA-Q''"
  by (simp add: encodeJzb_def mock_platform_def replace_char_def strip_padding_def b64_char_def b64_alphabet_def)

theorem jzb_roundtrip_witness:
  "matches_url_safe (encodeJzb (mock_platform (Inl NonError)) (JObj []))
   \<and> decodeJzb (mock_platform (Inl NonError)) (encodeJzb (mock_platform (Inl NonError)) (JObj []))
       = Inr (JObj [])"
  using jzb_roundtrip [of "mock_platform (Inl NonError)" "JObj []"]
  by (simp add: mock_platform_def)

theorem no_visitor_default_witness:
  "\<not> truthy (targetingKey \<lparr>targetingKey = None, accountId = None\<rparr>)
   \<and> resolveBooleanEvaluation (mock_platform (Inl NonError)) test_provider ''feature-a'' True
        \<lparr>targetingKey = None, accountId = None\<rparr> test_world =
        (Inr (default_result True), test_provider,
         console_warn ''[PendoProvider] No targetingKey (visitor ID) provided in context'' test_world)
   \<and> fst (resolveNumberEvaluation (mock_platform (Inl NonError)) test_provider ''feature-a'' 42
        \<lparr>targetingKey = None, accountId = None\<rparr> test_world) = Inr (default_result 42)"
  using no_visitor_default [of "\<lparr>targetingKey = None, accountId = None\<rparr>"
          "mock_platform (Inl NonError)" test_provider "''feature-a''" True test_world
          "''x''" 42 JNull]
  by (simp add: truthy_def)

theorem initialize_lifecycle_witness:
  "initialize (new_PendoProvider [] [] None None None) =
     (Inl (Error ''Pendo API key is required''), new_PendoProvider [] [] None None None)
   \<and> initialize (new_PendoProvider ''test-key'' [] None None None) =
     (Inl (Error ''Pendo defaultUrl is required for server-side evaluation''),
      new_PendoProvider ''test-key'' [] None None None)
   \<and> providerStatus (snd (initialize test_provider)) = READY"
  using initialize_lifecycle [of "new_PendoProvider [] [] None None None"]
        initialize_lifecycle [of "new_PendoProvider ''test-key'' [] None None None"]
        initialize_lifecycle [of test_provider]
  by (simp add: new_PendoProvider_def test_provider_def)

end
